theory Spec2Isabelle
  imports Main "HOL-Library.Word" "HOL-Library.Sublist"
begin

unbundle bit_operations_syntax

section \<open>Artifact verification (pkg/auth/artifact_verifier.go)\<close>

text \<open>
  The file implements four artifact verifiers. Each one receives the open local copy of
  an artifact (\<^verbatim>\<open>*os.File\<close>) and the URL the artifact came from, and answers with a Go
  \<^verbatim>\<open>error\<close>: \<^verbatim>\<open>nil\<close> is \<open>None\<close> here, a failure is \<open>Some\<close> of the error.

  The code talks to the outside through the fetcher, the temporary directory, the local
  file, and four library calls (armor decoding, SHA-256, YAML, the detached signature
  check). None of them is defined in the file. They are parameters of the model, collected
  in the record \<open>env\<close> and in the fetcher field of each verifier, and every theorem below
  holds for all of them.
\<close>

subsection \<open>Data\<close>

type_synonym bytes = "8 word list"

text \<open>The text of an error that a library or a collaborator returned.\<close>

type_synonym cause = string

text \<open>
  \<^verbatim>\<open>url.URL\<close>, a struct of strings and one pointer to the immutable user information.
  The verifiers read \<^verbatim>\<open>Scheme\<close> and \<^verbatim>\<open>Path\<close> and copy the rest.
\<close>

record url =
  Scheme :: string
  Opaque :: string
  User :: "(string \<times> string option) option"
  Host :: string
  Path :: string
  RawPath :: string
  RawQuery :: string
  Fragment :: string

text \<open>
  The open file behind \<^verbatim>\<open>localCopy\<close>: its name, its bytes, the read offset, and whether
  seeking or reading fails on it (a pipe cannot seek, a closed file can do neither).
\<close>

record os_File =
  file_name :: string
  file_bytes :: bytes
  file_offset :: nat
  seek_fails :: "cause option"
  read_fails :: "cause option"

text \<open>The value of \<^verbatim>\<open>sha256.Sum256\<close> is a \<^verbatim>\<open>[32]byte\<close>.\<close>

typedef digest = "{bs :: bytes. length bs = 32}"
  by (rule exI [of _ "replicate 32 0"]) simp

text \<open>The files on disk, by path. Only the temporary files of the verifiers matter.\<close>

type_synonym disk = "(string \<times> bytes) list"

text \<open>
  \<^verbatim>\<open>uri.Fetcher\<close>, reduced to its method \<^verbatim>\<open>CopyLocal(src, dst)\<close>: it may write to the disk
  and returns an error or \<^verbatim>\<open>nil\<close>.
\<close>

type_synonym fetcher = "url \<Rightarrow> string \<Rightarrow> disk \<Rightarrow> cause option \<times> disk"

text \<open>The calls that leave the program, in the order they were made.\<close>

datatype call =
    CallTempDir
  | CallCopyLocal url string
  | CallSeek
  | CallReadAll
  | CallRemoveAll string

record world =
  localCopy :: os_File
  disk :: disk
  tempdirs :: nat
  trace :: "call list"

text \<open>
  The library functions the file calls. \<open>ioutil_TempDir\<close> answers the n-th request
  for a temporary directory. \<open>armor_Decode\<close> is \<open>Inl\<close> when the bytes are not an armored
  block, and otherwise \<open>Inr\<close> of what reading the body of the block gives.
  \<open>yaml_Unmarshal\<close> gives the field \<^verbatim>\<open>artifact_sha\<close> of the struct after unmarshalling (the
  empty string when the document has no such key).
\<close>

record 'k env =
  ioutil_TempDir :: "nat \<Rightarrow> cause + string"
  armor_Decode :: "bytes \<Rightarrow> cause + (cause + bytes)"
  sha256_Sum256 :: "bytes \<Rightarrow> digest"
  yaml_Unmarshal :: "bytes \<Rightarrow> cause + string"
  checkDetachedSignature :: "'k \<Rightarrow> bytes \<Rightarrow> bytes \<Rightarrow> cause option"
  LoadKeyring :: "string \<Rightarrow> cause + 'k"

text \<open>One constructor for each \<^verbatim>\<open>return\<close> of an error in the file.\<close>

datatype error =
    RewindFailed string cause
  | KeyringLoadFailed string cause
  | ManifestSchemeUnrecognized url string
  | TempDirFailed cause
  | ManifestDownloadFailed url cause
  | ManifestSignatureDownloadFailed url cause
  | ReadFileFailed cause
  | ArmoredBodyUnreadable cause
  | SignatureNotVerified cause
  | LocalCopyUnreadable cause
  | ManifestUnmarshalFailed cause
  | DigestMismatch string string
  | BuildSchemeUnrecognized url
  | SignatureFetchFailed url cause
  | SignatureReadFailed string cause
  | ArtifactUnreadable cause

text \<open>
  The three verifier structs. Their \<^verbatim>\<open>logger\<close> field is set by the constructors and read
  by no method of the file, so it is left out. The keyring is of a type \<open>'k\<close> that the
  model does not look into.
\<close>

record 'k BuildManifestVerifier =
  bmv_keyring :: 'k
  bmv_fetcher :: fetcher

record 'k BuildVerifier =
  bv_keyring :: 'k
  bv_fetcher :: fetcher

record 'k CompositeVerifier =
  manVerifier :: "'k BuildManifestVerifier"
  buildVerifier :: "'k BuildVerifier"

subsection \<open>The operations on the world\<close>

text \<open>
  Each operation appends itself to the trace. The two pointers a verifier receives are
  taken to be non-nil: the location is a value, and the local copy is the file of the
  world.

  \<^item> \<open>os_TempDir\<close> is \<^verbatim>\<open>ioutil.TempDir\<close>: the answer of the library to this request, counted.
  \<^item> \<open>os_RemoveAll\<close> removes the directory and every file below it.
  \<^item> \<open>filepath_Join\<close> joins with a slash; the directory names \<^verbatim>\<open>ioutil.TempDir\<close> returns
    are clean paths, on which \<^verbatim>\<open>filepath.Join\<close> does no more.
  \<^item> \<open>CopyLocal\<close> lets the fetcher change the disk, and nothing else of the world.
  \<^item> \<open>ioutil_ReadFile\<close> fails when the disk has no file at the path.
  \<^item> \<open>file_Seek0\<close> is \<^verbatim>\<open>localCopy.Seek(0, os.SEEK_SET)\<close>: on success the offset is 0, on
    failure it is unchanged.
  \<^item> \<open>ioutil_ReadAll\<close> is \<^verbatim>\<open>ioutil.ReadAll(localCopy)\<close>: it returns the bytes from the offset
    to the end and leaves the offset at the end; a failed read is taken to leave the
    offset where it was.
\<close>

definition os_TempDir :: "'k env \<Rightarrow> world \<Rightarrow> (cause + string) \<times> world" where
  "os_TempDir e w =
     (ioutil_TempDir e (tempdirs w),
      w\<lparr>tempdirs := Suc (tempdirs w), trace := trace w @ [CallTempDir]\<rparr>)"

definition under_dir :: "string \<Rightarrow> string \<Rightarrow> bool" where
  "under_dir dir p = (p = dir \<or> prefix (dir @ ''/'') p)"

definition os_RemoveAll :: "string \<Rightarrow> world \<Rightarrow> world" where
  "os_RemoveAll dir w =
     w\<lparr>disk := filter (\<lambda>(p, b). \<not> under_dir dir p) (disk w),
       trace := trace w @ [CallRemoveAll dir]\<rparr>"

definition filepath_Join :: "string \<Rightarrow> string \<Rightarrow> string" where
  "filepath_Join dir n = dir @ ''/'' @ n"

definition CopyLocal :: "fetcher \<Rightarrow> url \<Rightarrow> string \<Rightarrow> world \<Rightarrow> cause option \<times> world" where
  "CopyLocal f src dst w =
     (case f src dst (disk w) of
        (r, d) \<Rightarrow> (r, w\<lparr>disk := d, trace := trace w @ [CallCopyLocal src dst]\<rparr>))"

definition ioutil_ReadFile :: "string \<Rightarrow> world \<Rightarrow> cause + bytes" where
  "ioutil_ReadFile p w =
     (case map_of (disk w) p of
        None \<Rightarrow> Inl (''open '' @ p @ '': no such file or directory'')
      | Some b \<Rightarrow> Inr b)"

definition file_Seek0 :: "world \<Rightarrow> cause option \<times> world" where
  "file_Seek0 w =
     (case seek_fails (localCopy w) of
        Some c \<Rightarrow> (Some c, w\<lparr>trace := trace w @ [CallSeek]\<rparr>)
      | None \<Rightarrow>
          (None, w\<lparr>localCopy := (localCopy w)\<lparr>file_offset := 0\<rparr>,
                   trace := trace w @ [CallSeek]\<rparr>))"

definition ioutil_ReadAll :: "world \<Rightarrow> (cause + bytes) \<times> world" where
  "ioutil_ReadAll w =
     (case read_fails (localCopy w) of
        Some c \<Rightarrow> (Inl c, w\<lparr>trace := trace w @ [CallReadAll]\<rparr>)
      | None \<Rightarrow>
          (Inr (drop (file_offset (localCopy w)) (file_bytes (localCopy w))),
           w\<lparr>localCopy := (localCopy w)
                \<lparr>file_offset := max (file_offset (localCopy w))
                                    (length (file_bytes (localCopy w)))\<rparr>,
             trace := trace w @ [CallReadAll]\<rparr>))"

subsection \<open>hex.EncodeToString\<close>

definition hextable :: string where
  "hextable = ''0123456789abcdef''"

fun hex_EncodeToString :: "bytes \<Rightarrow> string" where
  "hex_EncodeToString [] = []"
| "hex_EncodeToString (v # vs) =
     hextable ! unat (drop_bit 4 v) # hextable ! unat (v AND 0x0f) # hex_EncodeToString vs"

subsection \<open>Lowercase hexadecimal, as the specification words it\<close>

text \<open>
  The rendering the specification asks of the digest, written without the table of the
  code, to compare \<open>hex_EncodeToString\<close> with: every byte becomes two characters, the digit
  of its upper four bits and then the digit of its lower four bits; the digits 0 to 9 are
  the characters with the codes 48 to 57 (\<^verbatim>\<open>0\<close> to \<^verbatim>\<open>9\<close>) and the digits 10 to 15 the
  characters with the codes 97 to 102 (\<^verbatim>\<open>a\<close> to \<^verbatim>\<open>f\<close>).
\<close>

definition hex_digit :: "nat \<Rightarrow> char" where
  "hex_digit n = (if n < 10 then char_of (48 + n) else char_of (87 + n))"

definition lowercase_hex :: "bytes \<Rightarrow> string" where
  "lowercase_hex bs =
     concat (map (\<lambda>v. [hex_digit (unat v div 16), hex_digit (unat v mod 16)]) bs)"

subsection \<open>verifySigned\<close>

definition verifySigned :: "'k env \<Rightarrow> 'k \<Rightarrow> bytes \<Rightarrow> bytes \<Rightarrow> error option" where
  "verifySigned e keyring signedBytes signatureBytes =
     (case (case armor_Decode e signatureBytes of
              Inl notArmored \<Rightarrow> Inr signatureBytes
            | Inr (Inl c) \<Rightarrow> Inl (ArmoredBodyUnreadable c)
            | Inr (Inr body) \<Rightarrow> Inr body) of
        Inl err \<Rightarrow> Some err
      | Inr signatureBytes' \<Rightarrow>
          (case checkDetachedSignature e keyring signedBytes signatureBytes' of
             Some c \<Rightarrow> Some (SignatureNotVerified c)
           | None \<Rightarrow> None))"

subsection \<open>BuildManifestVerifier\<close>

definition NewBuildManifestVerifier ::
    "'k env \<Rightarrow> string \<Rightarrow> fetcher \<Rightarrow> error + 'k BuildManifestVerifier" where
  "NewBuildManifestVerifier e keyringPath f =
     (case LoadKeyring e keyringPath of
        Inl c \<Rightarrow> Inl (KeyringLoadFailed keyringPath c)
      | Inr keyring \<Rightarrow> Inr \<lparr>bmv_keyring = keyring, bmv_fetcher = f\<rparr>)"

text \<open>The schemes of the \<^verbatim>\<open>case\<close> in both verifiers; every other scheme is the \<^verbatim>\<open>default\<close>.\<close>

definition recognizedSchemes :: "string list" where
  "recognizedSchemes = [''file'', ''gs'', ''http'', ''https'']"

definition checkMatchingDigest :: "'k env \<Rightarrow> bytes \<Rightarrow> world \<Rightarrow> error option \<times> world" where
  "checkMatchingDigest e manifestBytes w =
     (case ioutil_ReadAll w of
        (Inl c, w1) \<Rightarrow> (Some (LocalCopyUnreadable c), w1)
      | (Inr realTarBytes, w1) \<Rightarrow>
          (let digestBytes = sha256_Sum256 e realTarBytes;
               realDigest = hex_EncodeToString (Rep_digest digestBytes)
           in case yaml_Unmarshal e manifestBytes of
                Inl c \<Rightarrow> (Some (ManifestUnmarshalFailed c), w1)
              | Inr ArtifactDigest \<Rightarrow>
                  if realDigest \<noteq> ArtifactDigest
                  then (Some (DigestMismatch realDigest ArtifactDigest), w1)
                  else (None, w1)))"

text \<open>
  The value \<^verbatim>\<open>checkMatchingDigest\<close> has in its variable \<^verbatim>\<open>realDigest\<close> when it starts in the
  world \<open>w\<close> and the local copy can be read: the hexadecimal SHA-256 of the bytes from the
  read offset to the end.
\<close>

definition realDigest :: "'k env \<Rightarrow> world \<Rightarrow> string" where
  "realDigest e w =
     hex_EncodeToString (Rep_digest (sha256_Sum256 e
       (drop (file_offset (localCopy w)) (file_bytes (localCopy w)))))"

text \<open>
  \<^verbatim>\<open>BuildManifestVerifier.VerifyHoistArtifact\<close> is written in two parts, both running
  between the creation of the temporary directory and its deferred removal: lines 129 to
  154 download and read the manifest and its signature, lines 156 to 160 check them.
  \<^verbatim>\<open>signatureSrc\<close> is the same pointer as \<^verbatim>\<open>manifestSrc\<close>, so the second suffix is
  appended to the path that already ends in \<^verbatim>\<open>.manifest\<close>; \<^verbatim>\<open>manifestSrc\<close> is a copy
  of the struct \<^verbatim>\<open>artifactLocation\<close> points to, which itself is never written.
\<close>

definition fetchManifestAndSignature ::
    "'k BuildManifestVerifier \<Rightarrow> url \<Rightarrow> string \<Rightarrow> world \<Rightarrow> (error + bytes \<times> bytes) \<times> world" where
  "fetchManifestAndSignature b artifactLocation dir w =
     (let manifestSrc = artifactLocation\<lparr>Path := Path artifactLocation @ ''.manifest''\<rparr>;
          manifestDst = filepath_Join dir ''manifest''
      in case CopyLocal (bmv_fetcher b) manifestSrc manifestDst w of
           (Some c, w1) \<Rightarrow> (Inl (ManifestDownloadFailed artifactLocation c), w1)
         | (None, w1) \<Rightarrow>
             (let signatureSrc = manifestSrc\<lparr>Path := Path manifestSrc @ ''.sig''\<rparr>;
                  signatureDst = filepath_Join dir ''signature''
              in case CopyLocal (bmv_fetcher b) signatureSrc signatureDst w1 of
                   (Some c, w2) \<Rightarrow>
                     (Inl (ManifestSignatureDownloadFailed artifactLocation c), w2)
                 | (None, w2) \<Rightarrow>
                     (case ioutil_ReadFile manifestDst w2 of
                        Inl c \<Rightarrow> (Inl (ReadFileFailed c), w2)
                      | Inr manifestBytes \<Rightarrow>
                          (case ioutil_ReadFile signatureDst w2 of
                             Inl c \<Rightarrow> (Inl (ReadFileFailed c), w2)
                           | Inr signatureBytes \<Rightarrow>
                               (Inr (manifestBytes, signatureBytes), w2)))))"

definition verifyManifestIn ::
    "'k env \<Rightarrow> 'k BuildManifestVerifier \<Rightarrow> url \<Rightarrow> string \<Rightarrow> world \<Rightarrow> error option \<times> world" where
  "verifyManifestIn e b artifactLocation dir w =
     (case fetchManifestAndSignature b artifactLocation dir w of
        (Inl err, w1) \<Rightarrow> (Some err, w1)
      | (Inr (manifestBytes, signatureBytes), w1) \<Rightarrow>
          (case verifySigned e (bmv_keyring b) manifestBytes signatureBytes of
             Some err \<Rightarrow> (Some err, w1)
           | None \<Rightarrow> checkMatchingDigest e manifestBytes w1))"

definition BuildManifestVerifier_VerifyHoistArtifact ::
    "'k env \<Rightarrow> 'k BuildManifestVerifier \<Rightarrow> url \<Rightarrow> world \<Rightarrow> error option \<times> world" where
  "BuildManifestVerifier_VerifyHoistArtifact e b artifactLocation w =
     (if Scheme artifactLocation \<in> set recognizedSchemes
      then (case os_TempDir e w of
              (Inl c, w1) \<Rightarrow> (Some (TempDirFailed c), w1)
            | (Inr dir, w1) \<Rightarrow>
                (case verifyManifestIn e b artifactLocation dir w1 of
                   (r, w2) \<Rightarrow> (r, os_RemoveAll dir w2)))
      else (Some (ManifestSchemeUnrecognized artifactLocation (Scheme artifactLocation)), w))"

subsection \<open>BuildVerifier\<close>

definition NewBuildVerifier :: "'k env \<Rightarrow> string \<Rightarrow> fetcher \<Rightarrow> error + 'k BuildVerifier" where
  "NewBuildVerifier e keyringPath f =
     (case LoadKeyring e keyringPath of
        Inl c \<Rightarrow> Inl (KeyringLoadFailed keyringPath c)
      | Inr keyring \<Rightarrow> Inr \<lparr>bv_keyring = keyring, bv_fetcher = f\<rparr>)"

text \<open>The part of \<^verbatim>\<open>BuildVerifier.VerifyHoistArtifact\<close> inside the temporary directory.\<close>

definition verifyBuildIn ::
    "'k env \<Rightarrow> 'k BuildVerifier \<Rightarrow> url \<Rightarrow> string \<Rightarrow> world \<Rightarrow> error option \<times> world" where
  "verifyBuildIn e b artifactLocation dir w =
     (let sigURI = artifactLocation\<lparr>Path := Path artifactLocation @ ''.sig''\<rparr>;
          sigPath = filepath_Join dir ''sig''
      in case CopyLocal (bv_fetcher b) sigURI sigPath w of
           (Some c, w1) \<Rightarrow> (Some (SignatureFetchFailed sigURI c), w1)
         | (None, w1) \<Rightarrow>
             (case ioutil_ReadFile sigPath w1 of
                Inl c \<Rightarrow> (Some (SignatureReadFailed sigPath c), w1)
              | Inr sigData \<Rightarrow>
                  (case ioutil_ReadAll w1 of
                     (Inl c, w2) \<Rightarrow> (Some (ArtifactUnreadable c), w2)
                   | (Inr signedBytes, w2) \<Rightarrow>
                       (verifySigned e (bv_keyring b) signedBytes sigData, w2))))"

definition BuildVerifier_VerifyHoistArtifact ::
    "'k env \<Rightarrow> 'k BuildVerifier \<Rightarrow> url \<Rightarrow> world \<Rightarrow> error option \<times> world" where
  "BuildVerifier_VerifyHoistArtifact e b artifactLocation w =
     (if Scheme artifactLocation \<in> set recognizedSchemes
      then (case os_TempDir e w of
              (Inl c, w1) \<Rightarrow> (Some (TempDirFailed c), w1)
            | (Inr dir, w1) \<Rightarrow>
                (case verifyBuildIn e b artifactLocation dir w1 of
                   (r, w2) \<Rightarrow> (r, os_RemoveAll dir w2)))
      else (Some (BuildSchemeUnrecognized artifactLocation), w))"

subsection \<open>CompositeVerifier and the verifier that does nothing\<close>

definition NewCompositeVerifier ::
    "'k env \<Rightarrow> string \<Rightarrow> fetcher \<Rightarrow> error + 'k CompositeVerifier" where
  "NewCompositeVerifier e keyringPath f =
     (case NewBuildManifestVerifier e keyringPath f of
        Inl err \<Rightarrow> Inl err
      | Inr manV \<Rightarrow>
          (case NewBuildVerifier e keyringPath f of
             Inl err \<Rightarrow> Inl err
           | Inr buildV \<Rightarrow> Inr \<lparr>manVerifier = manV, buildVerifier = buildV\<rparr>))"

definition CompositeVerifier_VerifyHoistArtifact ::
    "'k env \<Rightarrow> 'k CompositeVerifier \<Rightarrow> url \<Rightarrow> world \<Rightarrow> error option \<times> world" where
  "CompositeVerifier_VerifyHoistArtifact e b artifactLocation w =
     (case BuildManifestVerifier_VerifyHoistArtifact e (manVerifier b) artifactLocation w of
        (None, w1) \<Rightarrow> (None, w1)
      | (Some manErr, w1) \<Rightarrow>
          (case file_Seek0 w1 of
             (Some c, w2) \<Rightarrow> (Some (RewindFailed (file_name (localCopy w2)) c), w2)
           | (None, w2) \<Rightarrow>
               BuildVerifier_VerifyHoistArtifact e (buildVerifier b) artifactLocation w2))"

definition nopVerifier_VerifyHoistArtifact :: "url \<Rightarrow> world \<Rightarrow> error option \<times> world" where
  "nopVerifier_VerifyHoistArtifact artifactLocation w = (None, w)"

subsection \<open>What a trace says\<close>

text \<open>The URLs the fetcher was asked for, in order.\<close>

fun requested :: "call \<Rightarrow> url list" where
  "requested (CallCopyLocal src dst) = [src]"
| "requested c = []"

definition fetched :: "call list \<Rightarrow> url list" where
  "fetched tr = concat (map requested tr)"

text \<open>The calls made between the world \<open>w\<close> and the later world \<open>w'\<close>.\<close>

definition calls_since :: "world \<Rightarrow> world \<Rightarrow> call list" where
  "calls_since w w' = drop (length (trace w)) (trace w')"

subsection \<open>A small environment to run the verifiers in\<close>

text \<open>
  Stand-ins for the libraries, small enough to evaluate: the digest of a byte string is
  32 copies of its length, a document lists the hexadecimal digits of its digest (and byte
  0 alone does not parse), an armored block is a dash followed by its body, a signature
  by key \<open>k\<close> is \<open>k\<close> followed by the length of what was signed, and the keyring holds
  the key 7.
\<close>

definition demo_Sum256 :: "bytes \<Rightarrow> digest" where
  "demo_Sum256 bs = Abs_digest (replicate 32 (of_nat (length bs)))"

definition demo_Unmarshal :: "bytes \<Rightarrow> cause + string" where
  "demo_Unmarshal bs =
     (if bs = [0] then Inl ''yaml: control characters are not allowed''
      else Inr (map (\<lambda>b. hextable ! unat b) bs))"

definition demo_Decode :: "bytes \<Rightarrow> cause + (cause + bytes)" where
  "demo_Decode bs =
     (case bs of
        [] \<Rightarrow> Inl ''EOF''
      | b # body \<Rightarrow> if b = 45 then Inr (Inr body) else Inl ''EOF'')"

definition demo_check :: "bytes \<Rightarrow> bytes \<Rightarrow> bytes \<Rightarrow> cause option" where
  "demo_check keyring signedBytes signatureBytes =
     (case signatureBytes of
        [k, n] \<Rightarrow>
          if k \<in> set keyring \<and> n = of_nat (length signedBytes) then None
          else Some ''openpgp: invalid signature''
      | _ \<Rightarrow> Some ''openpgp: invalid data'')"

definition demo_env :: "bytes env" where
  "demo_env =
     \<lparr>ioutil_TempDir = (\<lambda>n. Inr (''/tmp/av'' @ replicate n CHR ''x'')),
      armor_Decode = demo_Decode,
      sha256_Sum256 = demo_Sum256,
      yaml_Unmarshal = demo_Unmarshal,
      checkDetachedSignature = demo_check,
      LoadKeyring =
        (\<lambda>p. if p = ''/etc/p2/keyring'' then Inr [7] else Inl ''no such file or directory'')\<rparr>"

text \<open>A fetcher that serves the given paths and knows no others.\<close>

definition demo_fetcher :: "(string \<times> bytes) list \<Rightarrow> fetcher" where
  "demo_fetcher remote src dst d =
     (case map_of remote (Path src) of
        None \<Rightarrow> (Some ''404 Not Found'', d)
      | Some b \<Rightarrow> (None, (dst, b) # d))"

definition demo_location :: url where
  "demo_location =
     \<lparr>Scheme = ''https'', Opaque = [], User = None, Host = ''foo.bar.baz'',
      Path = ''/a.tgz'', RawPath = [], RawQuery = ''v=1'', Fragment = ''top''\<rparr>"

definition demo_file :: os_File where
  "demo_file =
     \<lparr>file_name = ''/data/a.tgz'', file_bytes = [1, 2, 3], file_offset = 0,
      seek_fails = None, read_fails = None\<rparr>"

definition demo_world :: "os_File \<Rightarrow> world" where
  "demo_world f = \<lparr>localCopy = f, disk = [], tempdirs = 0, trace = []\<rparr>"

text \<open>The digest of the three bytes of \<open>demo_file\<close>, as the manifest spells it.\<close>

definition demo_manifest :: bytes where
  "demo_manifest = concat (replicate 32 [0, 3])"

text \<open>A remote side with a signed manifest and a signed artifact.\<close>

definition demo_remote :: "(string \<times> bytes) list" where
  "demo_remote =
     [(''/a.tgz.manifest'', demo_manifest),
      (''/a.tgz.manifest.sig'', [7, 64]),
      (''/a.tgz.sig'', [7, 3])]"

text \<open>The same manifest, signed by a key that is not in the keyring.\<close>

definition demo_remote_untrusted :: "(string \<times> bytes) list" where
  "demo_remote_untrusted =
     [(''/a.tgz.manifest'', demo_manifest),
      (''/a.tgz.manifest.sig'', [9, 64]),
      (''/a.tgz.sig'', [7, 3])]"

definition demo_composite :: "(string \<times> bytes) list \<Rightarrow> bytes CompositeVerifier" where
  "demo_composite remote =
     \<lparr>manVerifier = \<lparr>bmv_keyring = [7], bmv_fetcher = demo_fetcher remote\<rparr>,
      buildVerifier = \<lparr>bv_keyring = [7], bv_fetcher = demo_fetcher remote\<rparr>\<rparr>"

text \<open>A remote side that has the direct signature of the artifact and no manifest.\<close>

definition demo_remote_build_only :: "(string \<times> bytes) list" where
  "demo_remote_build_only = [(''/a.tgz.sig'', [7, 3])]"

text \<open>The local copy behind a pipe: it can be read, and seeking on it fails.\<close>

definition demo_pipe :: os_File where
  "demo_pipe = demo_file\<lparr>seek_fails := Some ''seek /data/a.tgz: illegal seek''\<rparr>"

definition demo_ftp_location :: url where
  "demo_ftp_location = demo_location\<lparr>Scheme := ''ftp''\<rparr>"

text \<open>A remote side whose manifest, properly signed, declares the digest of another build.\<close>

definition demo_remote_stale :: "(string \<times> bytes) list" where
  "demo_remote_stale =
     [(''/a.tgz.manifest'', concat (replicate 32 [0, 2])),
      (''/a.tgz.manifest.sig'', [7, 64]),
      (''/a.tgz.sig'', [7, 3])]"

text \<open>
  A second stand-in for SHA-256, whose digests use every hexadecimal digit in both halves
  of a byte: the 32 bytes below, each increased by the length of the input.
\<close>

definition demo_pattern :: bytes where
  "demo_pattern =
     [0x00, 0x11, 0x22, 0x33, 0x44, 0x55, 0x66, 0x77,
      0x88, 0x99, 0xaa, 0xbb, 0xcc, 0xdd, 0xee, 0xff,
      0x01, 0x23, 0x45, 0x67, 0x89, 0xab, 0xcd, 0xef,
      0xfe, 0xdc, 0xba, 0x98, 0x76, 0x54, 0x32, 0x10]"

definition demo_Sum256_wide :: "bytes \<Rightarrow> digest" where
  "demo_Sum256_wide bs = Abs_digest (map (\<lambda>b. b + of_nat (length bs)) demo_pattern)"

definition demo_env_wide :: "bytes env" where
  "demo_env_wide = demo_env\<lparr>sha256_Sum256 := demo_Sum256_wide\<rparr>"

text \<open>The digits of the digest \<open>demo_Sum256_wide\<close> gives to three bytes.\<close>

definition demo_manifest_wide :: bytes where
  "demo_manifest_wide =
     [0, 3, 1, 4, 2, 5, 3, 6, 4, 7, 5, 8, 6, 9, 7, 10,
      8, 11, 9, 12, 10, 13, 11, 14, 12, 15, 14, 0, 15, 1, 0, 2,
      0, 4, 2, 6, 4, 8, 6, 10, 8, 12, 10, 14, 13, 0, 15, 2,
      0, 1, 13, 15, 11, 13, 9, 11, 7, 9, 5, 7, 3, 5, 1, 3]"

text \<open>The same digits with the first one, the upper half of the first byte, changed.\<close>

definition demo_manifest_high :: bytes where
  "demo_manifest_high = 1 # tl demo_manifest_wide"

section \<open>Facts about the model\<close>

subsection \<open>Evaluating the small environment\<close>

lemma Rep_demo_Sum256: "Rep_digest (demo_Sum256 bs) = replicate 32 (of_nat (length bs))"
  by (simp add: demo_Sum256_def Abs_digest_inverse)

lemma replicate_numeral_Cons: "replicate (numeral k) x = x # replicate (pred_numeral k) x"
  by (simp add: numeral_eq_Suc)

lemmas demo_defs =
  demo_env_def demo_fetcher_def demo_location_def demo_file_def demo_world_def
  demo_remote_def demo_remote_untrusted_def demo_remote_build_only_def demo_remote_stale_def
  demo_composite_def
  demo_check_def demo_Decode_def demo_Unmarshal_def demo_manifest_def demo_pipe_def
  demo_ftp_location_def Rep_demo_Sum256 hextable_def replicate_numeral_Cons

lemmas world_defs =
  os_TempDir_def os_RemoveAll_def CopyLocal_def ioutil_ReadFile_def ioutil_ReadAll_def
  file_Seek0_def filepath_Join_def under_dir_def

lemmas verifier_defs =
  CompositeVerifier_VerifyHoistArtifact_def BuildManifestVerifier_VerifyHoistArtifact_def
  BuildVerifier_VerifyHoistArtifact_def verifyManifestIn_def verifyBuildIn_def
  fetchManifestAndSignature_def checkMatchingDigest_def verifySigned_def
  recognizedSchemes_def Let_def

subsection \<open>The hexadecimal rendering\<close>

lemma length_hex_EncodeToString: "length (hex_EncodeToString bs) = 2 * length bs"
  by (induction bs) simp_all

lemma high_nibble_less: "unat (drop_bit 4 (v :: 8 word)) < 16"
proof -
  have "unat v < 2 ^ 8"
    using unsigned_less [of v, where 'a = nat] by simp
  moreover have "unat (drop_bit 4 v) = unat v div 2 ^ 4"
    using unat_drop_bit_eq [of 4 v] by (simp only: drop_bit_eq_div)
  ultimately show ?thesis by simp
qed

lemma low_nibble_less: "unat ((v :: 8 word) AND 0x0f) < 16"
proof -
  have "v AND 0x0f \<le> 0x0f"
    by (fact word_and_le1)
  then have "unat (v AND 0x0f) \<le> unat (0x0f :: 8 word)"
    by (simp only: word_le_nat_alt)
  then show ?thesis by simp
qed

lemma hextable_nth_mem: "n < 16 \<Longrightarrow> hextable ! n \<in> set hextable"
  by (rule nth_mem) (simp add: hextable_def)

lemma set_hex_EncodeToString: "set (hex_EncodeToString bs) \<subseteq> set hextable"
  by (induction bs) (simp_all add: hextable_nth_mem high_nibble_less low_nibble_less)

lemma length_Rep_digest: "length (Rep_digest d) = 32"
  using Rep_digest [of d] by simp

lemma length_hex_digest: "length (hex_EncodeToString (Rep_digest d)) = 64"
  by (simp add: length_hex_EncodeToString length_Rep_digest)

text \<open>\<open>hex_EncodeToString\<close> is the lowercase hexadecimal rendering, and the rendering
  tells any two byte strings apart.\<close>

lemma hex_digits_upto: "map hex_digit [0..<16] = hextable"
  by (simp add: upt_rec [of 0] upt_rec [of "Suc 0"] numeral_2_eq_2 [symmetric]
      hex_digit_def char_of_eq_iff hextable_def)

lemma hex_digit_hextable: "n < 16 \<Longrightarrow> hex_digit n = hextable ! n"
proof -
  assume n: "n < 16"
  have "hextable ! n = map hex_digit [0..<16] ! n"
    by (simp only: hex_digits_upto)
  also have "\<dots> = hex_digit ([0..<16] ! n)"
    using n by (intro nth_map) simp
  also have "\<dots> = hex_digit n"
    using n by (simp del: upt.simps)
  finally show ?thesis by simp
qed

lemma high_nibble: "unat (drop_bit 4 (v :: 8 word)) = unat v div 16"
  using unat_drop_bit_eq [of 4 v] by (simp only: drop_bit_eq_div) simp

lemma low_nibble: "unat ((v :: 8 word) AND 0x0f) = unat v mod 16"
proof -
  have "v AND 0x0f = take_bit 4 v"
    by (simp add: take_bit_eq_mask mask_eq_exp_minus_1)
  then show ?thesis
    by (simp add: unat_mod_distrib take_bit_eq_mod)
qed

lemma hex_EncodeToString_lowercase_hex: "hex_EncodeToString bs = lowercase_hex bs"
proof (induction bs)
  case Nil
  show ?case by (simp add: lowercase_hex_def)
next
  case (Cons v vs)
  have "unat v div 16 < 16"
    using unsigned_less [of v, where 'a = nat] by simp
  then show ?case
    using Cons by (simp add: lowercase_hex_def high_nibble low_nibble hex_digit_hextable)
qed

lemma hex_digit_inj: "m < 16 \<Longrightarrow> n < 16 \<Longrightarrow> hex_digit m = hex_digit n \<Longrightarrow> m = n"
  by (auto simp: hex_digit_def split: if_splits)

lemma byte_of_nibbles:
  "unat (u :: 8 word) div 16 = unat v div 16 \<Longrightarrow> unat u mod 16 = unat v mod 16 \<Longrightarrow> u = v"
proof -
  assume a: "unat u div 16 = unat v div 16" and b: "unat u mod 16 = unat v mod 16"
  have "unat u = unat v"
    using a b by (metis div_mult_mod_eq)
  then show ?thesis by (simp add: word_unat_eq_iff)
qed

lemma lowercase_hex_inj: "lowercase_hex xs = lowercase_hex ys \<Longrightarrow> xs = ys"
proof (induction xs arbitrary: ys)
  case Nil
  then show ?case by (cases ys) (simp_all add: lowercase_hex_def)
next
  case (Cons x xs)
  then obtain y ys' where ys: "ys = y # ys'"
    by (cases ys) (simp_all add: lowercase_hex_def)
  from Cons.prems ys
  have d: "hex_digit (unat x div 16) = hex_digit (unat y div 16)"
    and m: "hex_digit (unat x mod 16) = hex_digit (unat y mod 16)"
    and r: "lowercase_hex xs = lowercase_hex ys'"
    by (simp_all add: lowercase_hex_def)
  have bx: "unat x div 16 < 16" "unat y div 16 < 16"
    using unsigned_less [of x, where 'a = nat] unsigned_less [of y, where 'a = nat]
    by simp_all
  have "unat x div 16 = unat y div 16"
    by (rule hex_digit_inj [OF bx d])
  moreover have "unat x mod 16 = unat y mod 16"
    by (rule hex_digit_inj [OF _ _ m]) simp_all
  ultimately have "x = y"
    by (rule byte_of_nibbles)
  with Cons.IH [OF r] ys show ?case by simp
qed

lemma Rep_demo_Sum256_wide:
  "Rep_digest (demo_Sum256_wide bs) = map (\<lambda>b. b + of_nat (length bs)) demo_pattern"
  by (simp add: demo_Sum256_wide_def Abs_digest_inverse demo_pattern_def)

subsection \<open>Traces\<close>

lemma fetched_append: "fetched (xs @ ys) = fetched xs @ fetched ys"
  by (simp add: fetched_def)

lemma fetched_simps:
  "fetched [] = []"
  "fetched (CallCopyLocal src dst # tr) = src # fetched tr"
  "fetched (CallTempDir # tr) = fetched tr"
  "fetched (CallSeek # tr) = fetched tr"
  "fetched (CallReadAll # tr) = fetched tr"
  "fetched (CallRemoveAll dir # tr) = fetched tr"
  by (simp_all add: fetched_def)

lemma calls_since_append: "trace w' = trace w @ tr \<Longrightarrow> calls_since w w' = tr"
  by (simp add: calls_since_def)

lemma calls_since_same: "calls_since w w = []"
  by (simp add: calls_since_def)

subsection \<open>What each step does to the world\<close>

lemma CopyLocal_effect:
  "CopyLocal f src dst w = (r, w') \<Longrightarrow>
     r = fst (f src dst (disk w)) \<and> trace w' = trace w @ [CallCopyLocal src dst] \<and>
     localCopy w' = localCopy w \<and> tempdirs w' = tempdirs w"
  by (auto simp: CopyLocal_def split: prod.splits)

lemma ReadAll_effect:
  "ioutil_ReadAll w = (r, w') \<Longrightarrow>
     trace w' = trace w @ [CallReadAll] \<and> disk w' = disk w \<and>
     (case read_fails (localCopy w) of
        Some c \<Rightarrow> r = Inl c \<and> localCopy w' = localCopy w
      | None \<Rightarrow>
          r = Inr (drop (file_offset (localCopy w)) (file_bytes (localCopy w))) \<and>
          localCopy w' = (localCopy w)
            \<lparr>file_offset := max (file_offset (localCopy w))
                                (length (file_bytes (localCopy w)))\<rparr>)"
  by (auto simp: ioutil_ReadAll_def split: option.splits)

lemma fetch_effect:
  assumes "fetchManifestAndSignature b loc dir w = (r, w')"
  shows "localCopy w' = localCopy w"
    and "trace w' = trace w @
           CallCopyLocal (loc\<lparr>Path := Path loc @ ''.manifest''\<rparr>)
             (filepath_Join dir ''manifest'') #
           (case fst (bmv_fetcher b (loc\<lparr>Path := Path loc @ ''.manifest''\<rparr>)
                        (filepath_Join dir ''manifest'') (disk w)) of
              None \<Rightarrow> [CallCopyLocal (loc\<lparr>Path := Path loc @ ''.manifest.sig''\<rparr>)
                         (filepath_Join dir ''signature'')]
            | Some c \<Rightarrow> [])"
  using assms
  by (auto simp: fetchManifestAndSignature_def Let_def
      split: prod.splits option.splits sum.splits dest!: CopyLocal_effect)

lemma fetch_ok_trace:
  assumes "fetchManifestAndSignature b loc dir w = (Inr ms, w')"
  shows "trace w' = trace w @
           [CallCopyLocal (loc\<lparr>Path := Path loc @ ''.manifest''\<rparr>)
              (filepath_Join dir ''manifest''),
            CallCopyLocal (loc\<lparr>Path := Path loc @ ''.manifest.sig''\<rparr>)
              (filepath_Join dir ''signature'')]"
  using assms
  by (auto simp: fetchManifestAndSignature_def Let_def
      split: prod.splits option.splits sum.splits dest!: CopyLocal_effect)

lemma checkMatchingDigest_effect:
  assumes "checkMatchingDigest e mb w = (r, w')"
  shows "trace w' = trace w @ [CallReadAll]"
    and "r = None \<Longrightarrow> localCopy w' = (localCopy w)
            \<lparr>file_offset := max (file_offset (localCopy w))
                                (length (file_bytes (localCopy w)))\<rparr>"
  using assms
  by (auto simp: checkMatchingDigest_def Let_def
      split: prod.splits option.splits sum.splits if_splits dest!: ReadAll_effect)

lemma verifyManifestIn_success:
  assumes "verifyManifestIn e b loc dir w = (None, w')"
  shows "localCopy w' = (localCopy w)
            \<lparr>file_offset := max (file_offset (localCopy w))
                                (length (file_bytes (localCopy w)))\<rparr>"
    and "trace w' = trace w @
           [CallCopyLocal (loc\<lparr>Path := Path loc @ ''.manifest''\<rparr>)
              (filepath_Join dir ''manifest''),
            CallCopyLocal (loc\<lparr>Path := Path loc @ ''.manifest.sig''\<rparr>)
              (filepath_Join dir ''signature''),
            CallReadAll]"
proof -
  from assms obtain mb sb w1
    where f: "fetchManifestAndSignature b loc dir w = (Inr (mb, sb), w1)"
      and c: "checkMatchingDigest e mb w1 = (None, w')"
    by (auto simp: verifyManifestIn_def split: prod.splits sum.splits option.splits)
  show "localCopy w' = (localCopy w)
            \<lparr>file_offset := max (file_offset (localCopy w))
                                (length (file_bytes (localCopy w)))\<rparr>"
    using fetch_effect(1) [OF f] checkMatchingDigest_effect(2) [OF c] by simp
  show "trace w' = trace w @
           [CallCopyLocal (loc\<lparr>Path := Path loc @ ''.manifest''\<rparr>)
              (filepath_Join dir ''manifest''),
            CallCopyLocal (loc\<lparr>Path := Path loc @ ''.manifest.sig''\<rparr>)
              (filepath_Join dir ''signature''),
            CallReadAll]"
    using fetch_ok_trace [OF f] checkMatchingDigest_effect(1) [OF c] by simp
qed

text \<open>Whatever the outcome, the manifest strategy asks for the manifest first, for its
  signature only after the manifest arrived, and then at most reads the local copy.\<close>

lemma verifyManifestIn_trace:
  assumes "verifyManifestIn e b loc dir w = (r, w')"
  shows "\<exists>rest. set rest \<subseteq> {CallReadAll} \<and> trace w' = trace w @
           CallCopyLocal (loc\<lparr>Path := Path loc @ ''.manifest''\<rparr>)
             (filepath_Join dir ''manifest'') #
           (case fst (bmv_fetcher b (loc\<lparr>Path := Path loc @ ''.manifest''\<rparr>)
                        (filepath_Join dir ''manifest'') (disk w)) of
              None \<Rightarrow> [CallCopyLocal (loc\<lparr>Path := Path loc @ ''.manifest.sig''\<rparr>)
                         (filepath_Join dir ''signature'')]
            | Some c \<Rightarrow> []) @ rest"
proof (cases "fetchManifestAndSignature b loc dir w")
  case (Pair fr w1)
  note tr1 = fetch_effect(2) [OF Pair]
  show ?thesis
  proof (cases "\<exists>mb sb. fr = Inr (mb, sb) \<and> verifySigned e (bmv_keyring b) mb sb = None")
    case True
    then obtain mb sb where fr: "fr = Inr (mb, sb)"
      and vs: "verifySigned e (bmv_keyring b) mb sb = None" by blast
    from assms Pair fr vs have c: "checkMatchingDigest e mb w1 = (r, w')"
      by (simp add: verifyManifestIn_def)
    show ?thesis
      using tr1 checkMatchingDigest_effect(1) [OF c]
      by (intro exI [of _ "[CallReadAll]"]) simp
  next
    case False
    with assms Pair have "w' = w1"
      by (auto simp: verifyManifestIn_def split: sum.splits option.splits)
    then show ?thesis
      using tr1 by (intro exI [of _ "[]"]) simp
  qed
qed

lemma BMV_success:
  assumes "BuildManifestVerifier_VerifyHoistArtifact e b loc w = (None, w')"
  shows "localCopy w' = (localCopy w)
            \<lparr>file_offset := max (file_offset (localCopy w))
                                (length (file_bytes (localCopy w)))\<rparr>"
    and "\<exists>dir. ioutil_TempDir e (tempdirs w) = Inr dir \<and> trace w' = trace w @
           [CallTempDir,
            CallCopyLocal (loc\<lparr>Path := Path loc @ ''.manifest''\<rparr>)
              (filepath_Join dir ''manifest''),
            CallCopyLocal (loc\<lparr>Path := Path loc @ ''.manifest.sig''\<rparr>)
              (filepath_Join dir ''signature''),
            CallReadAll, CallRemoveAll dir]"
proof -
  from assms obtain dir w2
    where t: "ioutil_TempDir e (tempdirs w) = Inr dir"
      and v: "verifyManifestIn e b loc dir
                (w\<lparr>tempdirs := Suc (tempdirs w), trace := trace w @ [CallTempDir]\<rparr>) =
              (None, w2)"
      and r: "w' = os_RemoveAll dir w2"
    by (auto simp: BuildManifestVerifier_VerifyHoistArtifact_def os_TempDir_def
        split: if_splits prod.splits sum.splits)
  show "localCopy w' = (localCopy w)
            \<lparr>file_offset := max (file_offset (localCopy w))
                                (length (file_bytes (localCopy w)))\<rparr>"
    using verifyManifestIn_success(1) [OF v] r by (simp add: os_RemoveAll_def)
  show "\<exists>dir. ioutil_TempDir e (tempdirs w) = Inr dir \<and> trace w' = trace w @
           [CallTempDir,
            CallCopyLocal (loc\<lparr>Path := Path loc @ ''.manifest''\<rparr>)
              (filepath_Join dir ''manifest''),
            CallCopyLocal (loc\<lparr>Path := Path loc @ ''.manifest.sig''\<rparr>)
              (filepath_Join dir ''signature''),
            CallReadAll, CallRemoveAll dir]"
    using verifyManifestIn_success(2) [OF v] r t by (simp add: os_RemoveAll_def)
qed

text \<open>The three ways \<^verbatim>\<open>BuildManifestVerifier.VerifyHoistArtifact\<close> can run.\<close>

lemma BMV_cases:
  obtains
    (scheme) "Scheme loc \<notin> set recognizedSchemes"
      "BuildManifestVerifier_VerifyHoistArtifact e b loc w =
         (Some (ManifestSchemeUnrecognized loc (Scheme loc)), w)"
  | (tempdir) c where "Scheme loc \<in> set recognizedSchemes"
      "ioutil_TempDir e (tempdirs w) = Inl c"
      "BuildManifestVerifier_VerifyHoistArtifact e b loc w =
         (Some (TempDirFailed c),
          w\<lparr>tempdirs := Suc (tempdirs w), trace := trace w @ [CallTempDir]\<rparr>)"
  | (run) dir r w2 where "Scheme loc \<in> set recognizedSchemes"
      "ioutil_TempDir e (tempdirs w) = Inr dir"
      "verifyManifestIn e b loc dir
         (w\<lparr>tempdirs := Suc (tempdirs w), trace := trace w @ [CallTempDir]\<rparr>) = (r, w2)"
      "BuildManifestVerifier_VerifyHoistArtifact e b loc w = (r, os_RemoveAll dir w2)"
proof (cases "Scheme loc \<in> set recognizedSchemes")
  case False
  then show ?thesis
    by (intro scheme) (simp_all add: BuildManifestVerifier_VerifyHoistArtifact_def)
next
  case True
  show ?thesis
  proof (cases "ioutil_TempDir e (tempdirs w)")
    case (Inl c)
    with True show ?thesis
      by (intro tempdir [of c])
        (simp_all add: BuildManifestVerifier_VerifyHoistArtifact_def os_TempDir_def)
  next
    case (Inr dir)
    obtain r w2 where v: "verifyManifestIn e b loc dir
         (w\<lparr>tempdirs := Suc (tempdirs w), trace := trace w @ [CallTempDir]\<rparr>) = (r, w2)"
      by (cases "verifyManifestIn e b loc dir
         (w\<lparr>tempdirs := Suc (tempdirs w), trace := trace w @ [CallTempDir]\<rparr>)") blast
    with True Inr show ?thesis
      by (intro run [of dir r w2])
        (simp_all add: BuildManifestVerifier_VerifyHoistArtifact_def os_TempDir_def)
  qed
qed

lemma BMV_trace:
  "\<exists>tr. trace (snd (BuildManifestVerifier_VerifyHoistArtifact e b loc w)) = trace w @ tr \<and>
        CallSeek \<notin> set tr \<and>
        set (fetched tr) \<subseteq> {loc\<lparr>Path := Path loc @ ''.manifest''\<rparr>,
                              loc\<lparr>Path := Path loc @ ''.manifest.sig''\<rparr>}"
proof (cases rule: BMV_cases [of loc e b w])
  case scheme
  then show ?thesis by (simp add: fetched_simps)
next
  case (tempdir c)
  then show ?thesis by (simp add: fetched_simps)
next
  case (run dir r w2)
  from verifyManifestIn_trace [OF run(3)] obtain rest
    where "set rest \<subseteq> {CallReadAll}"
      and "trace w2 = trace w @ CallTempDir #
           CallCopyLocal (loc\<lparr>Path := Path loc @ ''.manifest''\<rparr>)
             (filepath_Join dir ''manifest'') #
           (case fst (bmv_fetcher b (loc\<lparr>Path := Path loc @ ''.manifest''\<rparr>)
                        (filepath_Join dir ''manifest'') (disk w)) of
              None \<Rightarrow> [CallCopyLocal (loc\<lparr>Path := Path loc @ ''.manifest.sig''\<rparr>)
                         (filepath_Join dir ''signature'')]
            | Some c \<Rightarrow> []) @ rest"
    by auto
  then show ?thesis
    using run(4)
    by (auto simp: os_RemoveAll_def fetched_append fetched_simps fetched_def
        split: option.splits)
qed

lemma verifyBuildIn_trace:
  assumes "verifyBuildIn e b loc dir w = (r, w')"
  shows "\<exists>rest. set rest \<subseteq> {CallReadAll} \<and> trace w' = trace w @
           CallCopyLocal (loc\<lparr>Path := Path loc @ ''.sig''\<rparr>) (filepath_Join dir ''sig'') # rest"
proof (cases "CopyLocal (bv_fetcher b) (loc\<lparr>Path := Path loc @ ''.sig''\<rparr>)
                (filepath_Join dir ''sig'') w")
  case (Pair cr w1)
  note c = CopyLocal_effect [OF Pair]
  show ?thesis
  proof (cases "cr = None \<and> (\<exists>sigData. ioutil_ReadFile (filepath_Join dir ''sig'') w1 = Inr sigData)")
    case True
    then obtain sigData where cr: "cr = None"
      and rf: "ioutil_ReadFile (filepath_Join dir ''sig'') w1 = Inr sigData" by blast
    obtain rr w2 where ra: "ioutil_ReadAll w1 = (rr, w2)"
      by (cases "ioutil_ReadAll w1") blast
    from assms Pair cr rf ra have "w' = w2"
      by (auto simp: verifyBuildIn_def Let_def split: sum.splits)
    then show ?thesis
      using c ReadAll_effect [OF ra] by (intro exI [of _ "[CallReadAll]"]) simp
  next
    case False
    with assms Pair have "w' = w1"
      by (auto simp: verifyBuildIn_def Let_def split: sum.splits option.splits)
    then show ?thesis
      using c by (intro exI [of _ "[]"]) simp
  qed
qed

text \<open>The three ways \<^verbatim>\<open>BuildVerifier.VerifyHoistArtifact\<close> can run.\<close>

lemma BV_cases:
  obtains
    (scheme) "Scheme loc \<notin> set recognizedSchemes"
      "BuildVerifier_VerifyHoistArtifact e b loc w = (Some (BuildSchemeUnrecognized loc), w)"
  | (tempdir) c where "Scheme loc \<in> set recognizedSchemes"
      "ioutil_TempDir e (tempdirs w) = Inl c"
      "BuildVerifier_VerifyHoistArtifact e b loc w =
         (Some (TempDirFailed c),
          w\<lparr>tempdirs := Suc (tempdirs w), trace := trace w @ [CallTempDir]\<rparr>)"
  | (run) dir r w2 where "Scheme loc \<in> set recognizedSchemes"
      "ioutil_TempDir e (tempdirs w) = Inr dir"
      "verifyBuildIn e b loc dir
         (w\<lparr>tempdirs := Suc (tempdirs w), trace := trace w @ [CallTempDir]\<rparr>) = (r, w2)"
      "BuildVerifier_VerifyHoistArtifact e b loc w = (r, os_RemoveAll dir w2)"
proof (cases "Scheme loc \<in> set recognizedSchemes")
  case False
  then show ?thesis
    by (intro scheme) (simp_all add: BuildVerifier_VerifyHoistArtifact_def)
next
  case True
  show ?thesis
  proof (cases "ioutil_TempDir e (tempdirs w)")
    case (Inl c)
    with True show ?thesis
      by (intro tempdir [of c])
        (simp_all add: BuildVerifier_VerifyHoistArtifact_def os_TempDir_def)
  next
    case (Inr dir)
    obtain r w2 where v: "verifyBuildIn e b loc dir
         (w\<lparr>tempdirs := Suc (tempdirs w), trace := trace w @ [CallTempDir]\<rparr>) = (r, w2)"
      by (cases "verifyBuildIn e b loc dir
         (w\<lparr>tempdirs := Suc (tempdirs w), trace := trace w @ [CallTempDir]\<rparr>)") blast
    with True Inr show ?thesis
      by (intro run [of dir r w2])
        (simp_all add: BuildVerifier_VerifyHoistArtifact_def os_TempDir_def)
  qed
qed

lemma BV_trace:
  "\<exists>tr. trace (snd (BuildVerifier_VerifyHoistArtifact e b loc w)) = trace w @ tr \<and>
        CallSeek \<notin> set tr \<and>
        set (fetched tr) \<subseteq> {loc\<lparr>Path := Path loc @ ''.sig''\<rparr>}"
proof (cases rule: BV_cases [of loc e b w])
  case scheme
  then show ?thesis by (simp add: fetched_simps)
next
  case (tempdir c)
  then show ?thesis by (simp add: fetched_simps)
next
  case (run dir r w2)
  from verifyBuildIn_trace [OF run(3)] obtain rest
    where "set rest \<subseteq> {CallReadAll}"
      and "trace w2 = trace w @ CallTempDir #
           CallCopyLocal (loc\<lparr>Path := Path loc @ ''.sig''\<rparr>) (filepath_Join dir ''sig'') # rest"
    by auto
  then show ?thesis
    using run(4)
    by (auto simp: os_RemoveAll_def fetched_append fetched_simps fetched_def)
qed

subsection \<open>The two paths of the composite\<close>

lemma Composite_after_success:
  assumes "BuildManifestVerifier_VerifyHoistArtifact e (manVerifier b) loc w = (None, w1)"
  shows "CompositeVerifier_VerifyHoistArtifact e b loc w = (None, w1)"
  using assms by (simp add: CompositeVerifier_VerifyHoistArtifact_def)

lemma Composite_after_failure:
  assumes "BuildManifestVerifier_VerifyHoistArtifact e (manVerifier b) loc w = (Some manErr, w1)"
  shows "CompositeVerifier_VerifyHoistArtifact e b loc w =
     (case seek_fails (localCopy w1) of
        Some c \<Rightarrow>
          (Some (RewindFailed (file_name (localCopy w1)) c),
           w1\<lparr>trace := trace w1 @ [CallSeek]\<rparr>)
      | None \<Rightarrow>
          BuildVerifier_VerifyHoistArtifact e (buildVerifier b) loc
            (w1\<lparr>localCopy := (localCopy w1)\<lparr>file_offset := 0\<rparr>,
                trace := trace w1 @ [CallSeek]\<rparr>))"
  using assms
  by (simp add: CompositeVerifier_VerifyHoistArtifact_def file_Seek0_def split: option.splits)

text \<open>After a failure of the manifest strategy, the composite seeks, and asks the fetcher
  for nothing but the direct signature.\<close>

lemma Composite_failure_trace:
  assumes "BuildManifestVerifier_VerifyHoistArtifact e (manVerifier b) loc w = (Some manErr, w1)"
  shows "\<exists>tr. trace (snd (CompositeVerifier_VerifyHoistArtifact e b loc w)) =
                trace w1 @ CallSeek # tr \<and>
              set (fetched tr) \<subseteq> {loc\<lparr>Path := Path loc @ ''.sig''\<rparr>}"
proof (cases "seek_fails (localCopy w1)")
  case (Some c)
  then show ?thesis
    using Composite_after_failure [OF assms] by (simp add: fetched_simps)
next
  case None
  obtain tr where
    "trace (snd (BuildVerifier_VerifyHoistArtifact e (buildVerifier b) loc
       (w1\<lparr>localCopy := (localCopy w1)\<lparr>file_offset := 0\<rparr>,
           trace := trace w1 @ [CallSeek]\<rparr>))) = (trace w1 @ [CallSeek]) @ tr"
    "set (fetched tr) \<subseteq> {loc\<lparr>Path := Path loc @ ''.sig''\<rparr>}"
    using BV_trace [of e "buildVerifier b" loc
        "w1\<lparr>localCopy := (localCopy w1)\<lparr>file_offset := 0\<rparr>, trace := trace w1 @ [CallSeek]\<rparr>"]
    by auto
  then show ?thesis
    using Composite_after_failure [OF assms] None by simp
qed

section \<open>The claims\<close>

subsection \<open>The fallback of the composite\<close>

text \<open>
  Claim C1. Whenever the manifest strategy returns an error, whatever the error, the
  composite seeks the local copy back to offset 0. If the seek fails, the composite
  returns the rewind error and the world is the one the manifest strategy left, with the
  seek as its only further call: the build strategy did not run. If the seek succeeds,
  the composite is the build strategy run on the local copy at offset 0, so the build
  strategy's outcome, success or failure, is the composite's, and the error of the
  manifest strategy appears nowhere in it.
\<close>

theorem composite_fallback:
  assumes "BuildManifestVerifier_VerifyHoistArtifact e (manVerifier b) loc w = (Some manErr, w1)"
  shows "CompositeVerifier_VerifyHoistArtifact e b loc w =
     (case seek_fails (localCopy w1) of
        Some c \<Rightarrow>
          (Some (RewindFailed (file_name (localCopy w1)) c),
           w1\<lparr>trace := trace w1 @ [CallSeek]\<rparr>)
      | None \<Rightarrow>
          BuildVerifier_VerifyHoistArtifact e (buildVerifier b) loc
            (w1\<lparr>localCopy := (localCopy w1)\<lparr>file_offset := 0\<rparr>,
                trace := trace w1 @ [CallSeek]\<rparr>))"
  using assms by (rule Composite_after_failure)

text \<open>
  The manifest on the remote side declares another digest, so the manifest strategy
  fails after reading the three bytes of the local copy. On a file the composite rewinds
  and the build strategy verifies all three bytes; on a pipe the rewind fails.
\<close>

theorem composite_fallback_witness:
  "fst (BuildManifestVerifier_VerifyHoistArtifact demo_env
          (manVerifier (demo_composite demo_remote_stale)) demo_location
          (demo_world demo_file)) \<noteq> None \<and>
   file_offset (localCopy (snd (BuildManifestVerifier_VerifyHoistArtifact demo_env
          (manVerifier (demo_composite demo_remote_stale)) demo_location
          (demo_world demo_file)))) = 3 \<and>
   fst (CompositeVerifier_VerifyHoistArtifact demo_env (demo_composite demo_remote_stale)
          demo_location (demo_world demo_file)) = None \<and>
   fst (CompositeVerifier_VerifyHoistArtifact demo_env (demo_composite demo_remote_stale)
          demo_location (demo_world demo_pipe)) =
     Some (RewindFailed ''/data/a.tgz'' ''seek /data/a.tgz: illegal seek'')"
proof -
  let ?man = "\<lambda>f. BuildManifestVerifier_VerifyHoistArtifact demo_env
          (manVerifier (demo_composite demo_remote_stale)) demo_location (demo_world f)"
  have on_file: "?man demo_file = (Some (the (fst (?man demo_file))), snd (?man demo_file))"
    by (simp add: prod_eq_iff demo_defs world_defs verifier_defs)
  have on_pipe: "?man demo_pipe = (Some (the (fst (?man demo_pipe))), snd (?man demo_pipe))"
    by (simp add: prod_eq_iff demo_defs world_defs verifier_defs)
  show ?thesis
    using composite_fallback [OF on_file] composite_fallback [OF on_pipe]
    by (simp add: demo_defs world_defs verifier_defs)
qed

text \<open>
  Claim C2. When the manifest strategy succeeds, the composite returns success in the
  world the manifest strategy left: nothing else ran. During the call the fetcher was
  asked for the manifest and for the signature of the manifest, in this order, and for
  nothing else; the direct signature of the artifact is not among the requests.
\<close>

theorem composite_manifest_success:
  assumes "BuildManifestVerifier_VerifyHoistArtifact e (manVerifier b) loc w = (None, w1)"
  shows "CompositeVerifier_VerifyHoistArtifact e b loc w = (None, w1) \<and>
         fetched (calls_since w w1) =
           [loc\<lparr>Path := Path loc @ ''.manifest''\<rparr>, loc\<lparr>Path := Path loc @ ''.manifest.sig''\<rparr>] \<and>
         loc\<lparr>Path := Path loc @ ''.sig''\<rparr> \<notin> set (fetched (calls_since w w1))"
proof -
  from BMV_success(2) [OF assms] obtain dir where
    "trace w1 = trace w @
           [CallTempDir,
            CallCopyLocal (loc\<lparr>Path := Path loc @ ''.manifest''\<rparr>)
              (filepath_Join dir ''manifest''),
            CallCopyLocal (loc\<lparr>Path := Path loc @ ''.manifest.sig''\<rparr>)
              (filepath_Join dir ''signature''),
            CallReadAll, CallRemoveAll dir]"
    by blast
  then have f: "fetched (calls_since w w1) =
      [loc\<lparr>Path := Path loc @ ''.manifest''\<rparr>, loc\<lparr>Path := Path loc @ ''.manifest.sig''\<rparr>]"
    by (simp add: calls_since_def fetched_simps)
  have "Path (loc\<lparr>Path := Path loc @ ''.sig''\<rparr>) \<noteq> Path (loc\<lparr>Path := Path loc @ ''.manifest''\<rparr>)"
    "Path (loc\<lparr>Path := Path loc @ ''.sig''\<rparr>) \<noteq> Path (loc\<lparr>Path := Path loc @ ''.manifest.sig''\<rparr>)"
    by simp_all
  then have "loc\<lparr>Path := Path loc @ ''.sig''\<rparr> \<noteq> loc\<lparr>Path := Path loc @ ''.manifest''\<rparr>"
    "loc\<lparr>Path := Path loc @ ''.sig''\<rparr> \<noteq> loc\<lparr>Path := Path loc @ ''.manifest.sig''\<rparr>"
    by metis+
  with f Composite_after_success [OF assms] show ?thesis by simp
qed

text \<open>With a good manifest on the remote side the manifest strategy succeeds.\<close>

theorem composite_manifest_success_witness:
  "CompositeVerifier_VerifyHoistArtifact demo_env (demo_composite demo_remote) demo_location
       (demo_world demo_file) =
     (None, snd (BuildManifestVerifier_VerifyHoistArtifact demo_env
                   (manVerifier (demo_composite demo_remote)) demo_location
                   (demo_world demo_file))) \<and>
   fetched (trace (snd (CompositeVerifier_VerifyHoistArtifact demo_env
       (demo_composite demo_remote) demo_location (demo_world demo_file)))) =
     [demo_location\<lparr>Path := ''/a.tgz.manifest''\<rparr>,
      demo_location\<lparr>Path := ''/a.tgz.manifest.sig''\<rparr>]"
proof -
  let ?man = "BuildManifestVerifier_VerifyHoistArtifact demo_env
          (manVerifier (demo_composite demo_remote)) demo_location (demo_world demo_file)"
  have ok: "?man = (None, snd ?man)"
    by (simp add: prod_eq_iff demo_defs world_defs verifier_defs)
  have "calls_since (demo_world demo_file) (snd ?man) = trace (snd ?man)"
    by (simp add: calls_since_def demo_world_def)
  with composite_manifest_success [OF ok] show ?thesis
    by (simp add: demo_location_def)
qed

text \<open>
  Claim C10. When the manifest strategy succeeds, the composite leaves the world as the
  manifest strategy left it. The local copy is then where reading it to the end for the
  digest put it: at the end of its bytes (or where it already was, beyond them), with no
  byte changed. The composite seeks during a call exactly when the manifest strategy
  failed.
\<close>

theorem composite_success_keeps_offset:
  "(fst (BuildManifestVerifier_VerifyHoistArtifact e (manVerifier b) loc w) = None \<longrightarrow>
      snd (CompositeVerifier_VerifyHoistArtifact e b loc w) =
        snd (BuildManifestVerifier_VerifyHoistArtifact e (manVerifier b) loc w) \<and>
      localCopy (snd (CompositeVerifier_VerifyHoistArtifact e b loc w)) =
        (localCopy w)\<lparr>file_offset := max (file_offset (localCopy w))
                                          (length (file_bytes (localCopy w)))\<rparr>) \<and>
   (CallSeek \<in> set (calls_since w (snd (CompositeVerifier_VerifyHoistArtifact e b loc w)))) =
     (fst (BuildManifestVerifier_VerifyHoistArtifact e (manVerifier b) loc w) \<noteq> None)"
proof (cases "BuildManifestVerifier_VerifyHoistArtifact e (manVerifier b) loc w")
  case (Pair r w1)
  from BMV_trace [of e "manVerifier b" loc w] Pair obtain tr1
    where tr1: "trace w1 = trace w @ tr1" and noseek: "CallSeek \<notin> set tr1"
    by auto
  show ?thesis
  proof (cases r)
    case None
    with Pair have ok: "BuildManifestVerifier_VerifyHoistArtifact e (manVerifier b) loc w = (None, w1)"
      by simp
    have "CompositeVerifier_VerifyHoistArtifact e b loc w = (None, w1)"
      by (rule Composite_after_success [OF ok])
    then show ?thesis
      using ok BMV_success(1) [OF ok] calls_since_append [OF tr1] noseek by simp
  next
    case (Some manErr)
    with Pair have ko:
      "BuildManifestVerifier_VerifyHoistArtifact e (manVerifier b) loc w = (Some manErr, w1)"
      by simp
    from Composite_failure_trace [OF ko] obtain tr
      where "trace (snd (CompositeVerifier_VerifyHoistArtifact e b loc w)) =
               trace w1 @ CallSeek # tr"
      by blast
    with tr1 have "trace (snd (CompositeVerifier_VerifyHoistArtifact e b loc w)) =
               trace w @ (tr1 @ CallSeek # tr)"
      by simp
    from calls_since_append [OF this] ko show ?thesis by simp
  qed
qed

text \<open>
  With the good manifest the local copy of three bytes ends at offset 3 and the trace has
  no seek; with the manifest of another build the manifest strategy fails and the trace
  has the seek.
\<close>

theorem composite_success_keeps_offset_witness:
  "fst (BuildManifestVerifier_VerifyHoistArtifact demo_env
          (manVerifier (demo_composite demo_remote)) demo_location
          (demo_world demo_file)) = None \<and>
   file_offset (localCopy (snd (CompositeVerifier_VerifyHoistArtifact demo_env
          (demo_composite demo_remote) demo_location (demo_world demo_file)))) = 3 \<and>
   CallSeek \<notin> set (trace (snd (CompositeVerifier_VerifyHoistArtifact demo_env
          (demo_composite demo_remote) demo_location (demo_world demo_file)))) \<and>
   CallSeek \<in> set (trace (snd (CompositeVerifier_VerifyHoistArtifact demo_env
          (demo_composite demo_remote_stale) demo_location (demo_world demo_file))))"
proof -
  have ok: "fst (BuildManifestVerifier_VerifyHoistArtifact demo_env
          (manVerifier (demo_composite demo_remote)) demo_location
          (demo_world demo_file)) = None"
    by (simp add: demo_defs world_defs verifier_defs)
  have ko: "fst (BuildManifestVerifier_VerifyHoistArtifact demo_env
          (manVerifier (demo_composite demo_remote_stale)) demo_location
          (demo_world demo_file)) \<noteq> None"
    by (simp add: demo_defs world_defs verifier_defs)
  have since: "calls_since (demo_world demo_file) w' = trace w'" for w'
    by (simp add: calls_since_def demo_world_def)
  have start: "localCopy (demo_world demo_file) = demo_file"
    by (simp add: demo_world_def)
  have len: "max (file_offset demo_file) (length (file_bytes demo_file)) = 3"
    by (simp add: demo_file_def)
  show ?thesis
    using
      composite_success_keeps_offset [of demo_env "demo_composite demo_remote"
        demo_location "demo_world demo_file"]
      composite_success_keeps_offset [of demo_env "demo_composite demo_remote_stale"
        demo_location "demo_world demo_file"]
      ok ko
    by (auto simp: since start len)
qed

subsection \<open>Schemes that are not recognized\<close>

text \<open>
  Claim C3, as the code has it. For a location whose scheme is none of file, gs, http and
  https, each of the two inner verifiers returns its unrecognized-scheme error and leaves
  the world untouched, so nothing is fetched. The composite fetches nothing either, and
  what it returns depends on the rewind that follows the failure of the manifest strategy:
  the build strategy's unrecognized-scheme error when the seek on the local copy
  succeeds, the rewind error when the seek fails.
\<close>

theorem unrecognized_scheme:
  assumes "Scheme loc \<notin> set recognizedSchemes"
  shows "BuildManifestVerifier_VerifyHoistArtifact e bm loc w =
           (Some (ManifestSchemeUnrecognized loc (Scheme loc)), w) \<and>
         BuildVerifier_VerifyHoistArtifact e bb loc w = (Some (BuildSchemeUnrecognized loc), w) \<and>
         CompositeVerifier_VerifyHoistArtifact e b loc w =
           (case seek_fails (localCopy w) of
              None \<Rightarrow>
                (Some (BuildSchemeUnrecognized loc),
                 w\<lparr>localCopy := (localCopy w)\<lparr>file_offset := 0\<rparr>,
                   trace := trace w @ [CallSeek]\<rparr>)
            | Some c \<Rightarrow>
                (Some (RewindFailed (file_name (localCopy w)) c),
                 w\<lparr>trace := trace w @ [CallSeek]\<rparr>)) \<and>
         fetched (calls_since w (snd (CompositeVerifier_VerifyHoistArtifact e b loc w))) = []"
proof -
  have man: "BuildManifestVerifier_VerifyHoistArtifact e bm loc w =
           (Some (ManifestSchemeUnrecognized loc (Scheme loc)), w)" for bm
    using assms by (simp add: BuildManifestVerifier_VerifyHoistArtifact_def)
  have build: "BuildVerifier_VerifyHoistArtifact e bb loc w' = (Some (BuildSchemeUnrecognized loc), w')"
    for bb w'
    using assms by (simp add: BuildVerifier_VerifyHoistArtifact_def)
  have comp: "CompositeVerifier_VerifyHoistArtifact e b loc w =
           (case seek_fails (localCopy w) of
              None \<Rightarrow>
                (Some (BuildSchemeUnrecognized loc),
                 w\<lparr>localCopy := (localCopy w)\<lparr>file_offset := 0\<rparr>,
                   trace := trace w @ [CallSeek]\<rparr>)
            | Some c \<Rightarrow>
                (Some (RewindFailed (file_name (localCopy w)) c),
                 w\<lparr>trace := trace w @ [CallSeek]\<rparr>))"
    using Composite_after_failure [OF man [of "manVerifier b"]]
    by (simp add: build split: option.splits)
  have "fetched (calls_since w (snd (CompositeVerifier_VerifyHoistArtifact e b loc w))) = []"
    by (simp add: comp calls_since_def fetched_simps split: option.splits)
  with man build comp show ?thesis by simp
qed

text \<open>An ftp location: on a file the composite returns the scheme error of the build
  strategy, on a pipe the rewind error; the trace holds the seek and no request.\<close>

theorem unrecognized_scheme_witness:
  "Scheme demo_ftp_location \<notin> set recognizedSchemes \<and>
   fst (BuildManifestVerifier_VerifyHoistArtifact demo_env
          (manVerifier (demo_composite demo_remote)) demo_ftp_location (demo_world demo_file)) =
     Some (ManifestSchemeUnrecognized demo_ftp_location ''ftp'') \<and>
   fst (BuildVerifier_VerifyHoistArtifact demo_env
          (buildVerifier (demo_composite demo_remote)) demo_ftp_location (demo_world demo_file)) =
     Some (BuildSchemeUnrecognized demo_ftp_location) \<and>
   fst (CompositeVerifier_VerifyHoistArtifact demo_env (demo_composite demo_remote)
          demo_ftp_location (demo_world demo_file)) =
     Some (BuildSchemeUnrecognized demo_ftp_location) \<and>
   trace (snd (CompositeVerifier_VerifyHoistArtifact demo_env (demo_composite demo_remote)
          demo_ftp_location (demo_world demo_file))) = [CallSeek]"
proof -
  have ftp: "Scheme demo_ftp_location \<notin> set recognizedSchemes"
    by (simp add: demo_ftp_location_def demo_location_def recognizedSchemes_def)
  have scheme: "Scheme demo_ftp_location = ''ftp''"
    by (simp add: demo_ftp_location_def)
  show ?thesis
    using ftp unrecognized_scheme [OF ftp, of demo_env _ "demo_world demo_file" _
        "demo_composite demo_remote"]
    by (simp add: scheme demo_world_def demo_file_def)
qed

text \<open>
  The claim as the specification words it fails for the composite: with an ftp location
  and a local copy that cannot seek, the composite does not return an unrecognized-scheme
  error but the rewind error.
\<close>

theorem unrecognized_scheme_counterexample:
  "Scheme demo_ftp_location \<notin> set recognizedSchemes \<and>
   fst (CompositeVerifier_VerifyHoistArtifact demo_env (demo_composite demo_remote)
          demo_ftp_location (demo_world demo_pipe)) =
     Some (RewindFailed ''/data/a.tgz'' ''seek /data/a.tgz: illegal seek'') \<and>
   fst (CompositeVerifier_VerifyHoistArtifact demo_env (demo_composite demo_remote)
          demo_ftp_location (demo_world demo_pipe)) \<noteq>
     Some (BuildSchemeUnrecognized demo_ftp_location) \<and>
   fst (CompositeVerifier_VerifyHoistArtifact demo_env (demo_composite demo_remote)
          demo_ftp_location (demo_world demo_pipe)) \<noteq>
     Some (ManifestSchemeUnrecognized demo_ftp_location ''ftp'')"
  by (simp add: demo_defs world_defs verifier_defs)

subsection \<open>Signatures, armored or not\<close>

text \<open>
  Claim C7. \<^verbatim>\<open>verifySigned\<close> takes the keyring, the signed bytes and the signature, and no
  flag for the encoding. When the armor decoder recognizes \<open>armored\<close> as a block whose body
  reads as \<open>raw\<close>, and does not recognize \<open>raw\<close> itself as a block, the two give the same
  outcome for every keyring and payload: in both cases it is the detached signature check
  on \<open>raw\<close>.
\<close>

theorem verifySigned_armor:
  assumes "armor_Decode e armored = Inr (Inr raw)"
    and "armor_Decode e raw = Inl notArmored"
  shows "verifySigned e keyring signedBytes armored = verifySigned e keyring signedBytes raw \<and>
         verifySigned e keyring signedBytes raw =
           (case checkDetachedSignature e keyring signedBytes raw of
              Some c \<Rightarrow> Some (SignatureNotVerified c)
            | None \<Rightarrow> None)"
  using assms by (simp add: verifySigned_def)

text \<open>The signature of three bytes by key 7, bare and behind a dash, against a keyring
  that holds the key and against one that does not.\<close>

theorem verifySigned_armor_witness:
  "armor_Decode demo_env [45, 7, 3] = Inr (Inr [7, 3]) \<and>
   armor_Decode demo_env [7, 3] = Inl ''EOF'' \<and>
   verifySigned demo_env [7] [1, 2, 3] [45, 7, 3] = None \<and>
   verifySigned demo_env [7] [1, 2, 3] [7, 3] = None \<and>
   verifySigned demo_env [9] [1, 2, 3] [45, 7, 3] =
     Some (SignatureNotVerified ''openpgp: invalid signature'') \<and>
   verifySigned demo_env [9] [1, 2, 3] [7, 3] =
     Some (SignatureNotVerified ''openpgp: invalid signature'')"
proof -
  have a: "armor_Decode demo_env [45, 7, 3] = Inr (Inr [7, 3])"
    by (simp add: demo_env_def demo_Decode_def)
  have r: "armor_Decode demo_env [7, 3] = Inl ''EOF''"
    by (simp add: demo_env_def demo_Decode_def)
  have c: "checkDetachedSignature demo_env = demo_check"
    by (simp add: demo_env_def)
  show ?thesis
    using a r verifySigned_armor [OF a r, of "[7]" "[1, 2, 3]"]
      verifySigned_armor [OF a r, of "[9]" "[1, 2, 3]"]
    by (simp add: c demo_check_def)
qed

subsection \<open>The digest check\<close>

text \<open>
  Claim C5. When the local copy can be read, \<^verbatim>\<open>checkMatchingDigest\<close> reads it to the end
  and takes the SHA-256 of what it read: the bytes from the read offset on, which are all
  the bytes of the file when the offset was 0. It compares the declared string with the
  lowercase hexadecimal rendering of those 32 bytes, as the specification words that
  rendering: the renderer of the code, \<open>hex_EncodeToString\<close>, computes exactly
  \<open>lowercase_hex\<close> on every byte string, the rendering has 64 characters, each one of
  \<^verbatim>\<open>0123456789abcdef\<close>, and two different digests never have the same rendering. A
  manifest that does not parse gives the unmarshalling error, which is not a digest
  mismatch. A manifest that parses gives success when the declared string equals the
  rendering, character for character, and a digest mismatch for every other string; a
  declared string of another length is such a string.
\<close>

theorem digest_comparison:
  assumes "read_fails (localCopy w) = None"
  shows "fst (checkMatchingDigest e manifestBytes w) =
           (case yaml_Unmarshal e manifestBytes of
              Inl c \<Rightarrow> Some (ManifestUnmarshalFailed c)
            | Inr declared \<Rightarrow>
                if declared =
                     lowercase_hex (Rep_digest (sha256_Sum256 e
                       (drop (file_offset (localCopy w)) (file_bytes (localCopy w)))))
                then None
                else Some (DigestMismatch
                       (lowercase_hex (Rep_digest (sha256_Sum256 e
                          (drop (file_offset (localCopy w)) (file_bytes (localCopy w))))))
                       declared)) \<and>
         hex_EncodeToString bs = lowercase_hex bs \<and>
         (lowercase_hex (Rep_digest d) = lowercase_hex (Rep_digest d') \<longrightarrow> d = d') \<and>
         realDigest e w =
           lowercase_hex (Rep_digest (sha256_Sum256 e
             (drop (file_offset (localCopy w)) (file_bytes (localCopy w))))) \<and>
         (yaml_Unmarshal e manifestBytes = Inr declared \<and> length declared \<noteq> 64 \<longrightarrow>
            fst (checkMatchingDigest e manifestBytes w) =
              Some (DigestMismatch (realDigest e w) declared)) \<and>
         ManifestUnmarshalFailed c \<noteq> DigestMismatch x y \<and>
         length (realDigest e w) = 64 \<and>
         set (realDigest e w) \<subseteq> set ''0123456789abcdef'' \<and>
         (file_offset (localCopy w) = 0 \<longrightarrow>
            realDigest e w =
              lowercase_hex (Rep_digest (sha256_Sum256 e (file_bytes (localCopy w)))))"
proof -
  have real: "realDigest e w =
           lowercase_hex (Rep_digest (sha256_Sum256 e
             (drop (file_offset (localCopy w)) (file_bytes (localCopy w)))))"
    by (simp add: realDigest_def hex_EncodeToString_lowercase_hex)
  have run: "fst (checkMatchingDigest e manifestBytes w) =
           (case yaml_Unmarshal e manifestBytes of
              Inl c \<Rightarrow> Some (ManifestUnmarshalFailed c)
            | Inr declared \<Rightarrow>
                if declared = realDigest e w then None
                else Some (DigestMismatch (realDigest e w) declared))"
    using assms
    by (auto simp: checkMatchingDigest_def ioutil_ReadAll_def realDigest_def Let_def
        split: sum.splits)
  have apart: "lowercase_hex (Rep_digest d) = lowercase_hex (Rep_digest d') \<longrightarrow> d = d'"
    using lowercase_hex_inj [of "Rep_digest d" "Rep_digest d'"]
    by (simp add: Rep_digest_inject)
  have len: "length (realDigest e w) = 64"
    by (simp add: realDigest_def length_hex_digest)
  have chars: "set (realDigest e w) \<subseteq> set ''0123456789abcdef''"
    using set_hex_EncodeToString by (simp add: realDigest_def hextable_def)
  have other: "yaml_Unmarshal e manifestBytes = Inr declared \<and> length declared \<noteq> 64 \<longrightarrow>
      fst (checkMatchingDigest e manifestBytes w) =
        Some (DigestMismatch (realDigest e w) declared)"
    using len by (auto simp: run)
  have whole: "file_offset (localCopy w) = 0 \<longrightarrow>
            realDigest e w =
              lowercase_hex (Rep_digest (sha256_Sum256 e (file_bytes (localCopy w))))"
    by (simp add: real)
  show ?thesis
    using run [unfolded real] real
    by (intro conjI hex_EncodeToString_lowercase_hex apart other len chars whole) simp_all
qed

text \<open>
  The local copy of three bytes, with a digest that uses all sixteen digits: the digest
  check passes the manifest that spells it, and rejects the manifest that differs in the
  upper half of the first byte only, the manifest of another build, and a manifest
  declaring two characters; a document that does not parse gives the unmarshalling error.
\<close>

theorem digest_comparison_witness:
  "read_fails (localCopy (demo_world demo_file)) = None \<and>
   realDigest demo_env_wide (demo_world demo_file) =
     ''031425364758697a8b9cadbecfe0f1020426486a8caed0f201dfbd9b79573513'' \<and>
   hex_EncodeToString [0x00, 0x10, 0xab, 0xff] = ''0010abff'' \<and>
   fst (checkMatchingDigest demo_env_wide demo_manifest_wide (demo_world demo_file)) = None \<and>
   fst (checkMatchingDigest demo_env_wide demo_manifest_high (demo_world demo_file)) =
     Some (DigestMismatch
       ''031425364758697a8b9cadbecfe0f1020426486a8caed0f201dfbd9b79573513''
       ''131425364758697a8b9cadbecfe0f1020426486a8caed0f201dfbd9b79573513'') \<and>
   fst (checkMatchingDigest demo_env demo_manifest (demo_world demo_file)) = None \<and>
   fst (checkMatchingDigest demo_env (concat (replicate 32 [0, 2])) (demo_world demo_file)) =
     Some (DigestMismatch (realDigest demo_env (demo_world demo_file))
            (concat (replicate 32 ''02''))) \<and>
   fst (checkMatchingDigest demo_env [0, 3] (demo_world demo_file)) =
     Some (DigestMismatch (realDigest demo_env (demo_world demo_file)) ''03'') \<and>
   fst (checkMatchingDigest demo_env [0] (demo_world demo_file)) =
     Some (ManifestUnmarshalFailed ''yaml: control characters are not allowed'') \<and>
   realDigest demo_env (demo_world demo_file) = concat (replicate 32 ''03'')"
proof -
  let ?w = "demo_world demo_file"
  let ?wide = "''031425364758697a8b9cadbecfe0f1020426486a8caed0f201dfbd9b79573513''"
  have readable: "read_fails (localCopy ?w) = None"
    by (simp add: demo_world_def demo_file_def)
  have bytes: "drop (file_offset (localCopy ?w)) (file_bytes (localCopy ?w)) = [1, 2, 3]"
    by (simp add: demo_world_def demo_file_def)
  have wide: "lowercase_hex (Rep_digest (sha256_Sum256 demo_env_wide [1, 2, 3])) = ?wide"
    by (simp add: demo_env_wide_def demo_env_def Rep_demo_Sum256_wide demo_pattern_def
        lowercase_hex_def hex_digit_def char_of_eq_iff)
  have narrow: "lowercase_hex (Rep_digest (sha256_Sum256 demo_env [1, 2, 3])) =
      concat (replicate 32 ''03'')"
    by (simp add: demo_env_def Rep_demo_Sum256 lowercase_hex_def hex_digit_def
        char_of_eq_iff replicate_numeral_Cons)
  have four: "lowercase_hex [0x00, 0x10, 0xab, 0xff] = ''0010abff''"
    by (simp add: lowercase_hex_def hex_digit_def char_of_eq_iff)
  have parse_wide: "yaml_Unmarshal demo_env_wide demo_manifest_wide = Inr ?wide"
    by (simp add: demo_env_wide_def demo_env_def demo_Unmarshal_def demo_manifest_wide_def
        hextable_def)
  have parse_high: "yaml_Unmarshal demo_env_wide demo_manifest_high =
      Inr ''131425364758697a8b9cadbecfe0f1020426486a8caed0f201dfbd9b79573513''"
    by (simp add: demo_env_wide_def demo_env_def demo_Unmarshal_def demo_manifest_high_def
        demo_manifest_wide_def hextable_def)
  have parse_own: "yaml_Unmarshal demo_env demo_manifest = Inr (concat (replicate 32 ''03''))"
    by (simp add: demo_env_def demo_Unmarshal_def demo_manifest_def hextable_def
        replicate_numeral_Cons)
  have parse_other: "yaml_Unmarshal demo_env (concat (replicate 32 [0, 2])) =
      Inr (concat (replicate 32 ''02''))"
    by (simp add: demo_env_def demo_Unmarshal_def hextable_def replicate_numeral_Cons)
  have parse_two: "yaml_Unmarshal demo_env [0, 3] = Inr ''03''"
    by (simp add: demo_env_def demo_Unmarshal_def hextable_def)
  have parse_none: "yaml_Unmarshal demo_env [0] =
      Inl ''yaml: control characters are not allowed''"
    by (simp add: demo_env_def demo_Unmarshal_def)
  have differ: "concat (replicate 32 ''02'') \<noteq> concat (replicate 32 ''03'')"
    by (simp add: replicate_numeral_Cons)
  have real_wide: "realDigest demo_env_wide ?w = ?wide"
    using digest_comparison [OF readable, of demo_env_wide, THEN conjunct2, THEN conjunct2,
        THEN conjunct2, THEN conjunct1]
    by (simp add: bytes wide)
  have real_narrow: "realDigest demo_env ?w = concat (replicate 32 ''03'')"
    using digest_comparison [OF readable, of demo_env, THEN conjunct2, THEN conjunct2,
        THEN conjunct2, THEN conjunct1]
    by (simp add: bytes narrow)
  have rendered: "hex_EncodeToString [0x00, 0x10, 0xab, 0xff] = ''0010abff''"
    using digest_comparison [OF readable, THEN conjunct2, THEN conjunct1,
        of "[0x00, 0x10, 0xab, 0xff]"]
    by (simp only: four)
  have run_wide: "fst (checkMatchingDigest demo_env_wide demo_manifest_wide ?w) = None"
    using digest_comparison [OF readable, of demo_env_wide demo_manifest_wide, THEN conjunct1]
    by (simp add: bytes wide parse_wide)
  have run_high: "fst (checkMatchingDigest demo_env_wide demo_manifest_high ?w) =
      Some (DigestMismatch ?wide
        ''131425364758697a8b9cadbecfe0f1020426486a8caed0f201dfbd9b79573513'')"
    using digest_comparison [OF readable, of demo_env_wide demo_manifest_high, THEN conjunct1]
    by (simp add: bytes wide parse_high)
  have run_own: "fst (checkMatchingDigest demo_env demo_manifest ?w) = None"
    using digest_comparison [OF readable, of demo_env demo_manifest, THEN conjunct1]
    by (simp add: bytes narrow parse_own)
  have run_other: "fst (checkMatchingDigest demo_env (concat (replicate 32 [0, 2])) ?w) =
      Some (DigestMismatch (concat (replicate 32 ''03'')) (concat (replicate 32 ''02'')))"
    using digest_comparison [OF readable, of demo_env "concat (replicate 32 [0, 2])",
        THEN conjunct1]
    by (simp add: bytes narrow parse_other differ)
  have run_two: "fst (checkMatchingDigest demo_env [0, 3] ?w) =
      Some (DigestMismatch (realDigest demo_env ?w) ''03'')"
    using digest_comparison [OF readable, of demo_env "[0, 3]" _ _ _ "''03''",
        THEN conjunct2, THEN conjunct2, THEN conjunct2, THEN conjunct2, THEN conjunct1]
    by (simp add: parse_two)
  have run_none: "fst (checkMatchingDigest demo_env [0] ?w) =
      Some (ManifestUnmarshalFailed ''yaml: control characters are not allowed'')"
    using digest_comparison [OF readable, of demo_env "[0]", THEN conjunct1]
    by (simp add: parse_none)
  show ?thesis
    by (simp only: readable real_wide real_narrow rendered run_wide run_high run_own
        run_other run_two run_none simp_thms)
qed

text \<open>
  Claim C9. A manifest that parses and declares the empty digest (the key
  \<^verbatim>\<open>artifact_sha\<close> is absent or empty) never passes the digest check, whatever the local
  copy is. Once the local copy has been read, the failure is the digest mismatch between
  the rendering of the real digest, which has 64 characters, and the empty string. The
  manifest strategy as a whole therefore does not succeed on such a manifest.
\<close>

theorem empty_declared_digest:
  assumes "yaml_Unmarshal e manifestBytes = Inr []"
  shows "fst (checkMatchingDigest e manifestBytes w) \<noteq> None \<and>
         (read_fails (localCopy w) = None \<longrightarrow>
            fst (checkMatchingDigest e manifestBytes w) =
              Some (DigestMismatch (realDigest e w) [])) \<and>
         length (realDigest e w) = 64 \<and>
         (fetchManifestAndSignature b loc dir w = (Inr (manifestBytes, signatureBytes), w1) \<longrightarrow>
            fst (verifyManifestIn e b loc dir w) \<noteq> None)"
proof -
  have len: "length (realDigest e w') = 64" for w'
    by (simp add: realDigest_def length_hex_digest)
  have ne: "realDigest e w' \<noteq> []" for w'
    using len [of w'] by auto
  have never: "fst (checkMatchingDigest e manifestBytes w') \<noteq> None" for w'
    using assms ne [of w']
    by (auto simp: checkMatchingDigest_def ioutil_ReadAll_def realDigest_def Let_def
        split: option.splits)
  have readable: "read_fails (localCopy w) = None \<longrightarrow>
            fst (checkMatchingDigest e manifestBytes w) =
              Some (DigestMismatch (realDigest e w) [])"
    using assms ne [of w]
    by (auto simp: checkMatchingDigest_def ioutil_ReadAll_def realDigest_def Let_def)
  have "fetchManifestAndSignature b loc dir w = (Inr (manifestBytes, signatureBytes), w1) \<longrightarrow>
            fst (verifyManifestIn e b loc dir w) \<noteq> None"
    using never [of w1] by (auto simp: verifyManifestIn_def split: option.splits)
  with never [of w] readable len [of w] show ?thesis by simp
qed

text \<open>The empty document parses in the small environment and declares nothing.\<close>

theorem empty_declared_digest_witness:
  "yaml_Unmarshal demo_env [] = Inr [] \<and>
   fst (checkMatchingDigest demo_env [] (demo_world demo_file)) =
     Some (DigestMismatch (concat (replicate 32 ''03'')) [])"
proof -
  have empty: "yaml_Unmarshal demo_env [] = Inr []"
    by (simp add: demo_env_def demo_Unmarshal_def)
  have readable: "read_fails (localCopy (demo_world demo_file)) = None"
    by (simp add: demo_world_def demo_file_def)
  have real: "realDigest demo_env (demo_world demo_file) = concat (replicate 32 ''03'')"
    by (simp add: realDigest_def demo_defs)
  show ?thesis
    using empty empty_declared_digest [OF empty, of "demo_world demo_file"] readable
    by (simp add: real)
qed

subsection \<open>The manifest strategy: signature first, then digest\<close>

text \<open>
  Claim C4. Take a run of \<^verbatim>\<open>BuildManifestVerifier.VerifyHoistArtifact\<close> that got as far as
  holding the bytes of the manifest and of its signature. If \<^verbatim>\<open>verifySigned\<close> rejects them,
  the verifier returns that very error (the signature did not verify, or its armor could
  not be read) and only removes the temporary directory: the local copy is exactly as it
  was before the call and was never read, so no digest was computed or compared, whatever
  the manifest declares. The verifier succeeds exactly when \<^verbatim>\<open>verifySigned\<close> accepts and the
  digest check that follows succeeds.
\<close>

theorem manifest_signature_first:
  assumes "Scheme loc \<in> set recognizedSchemes"
    and "os_TempDir e w = (Inr dir, w1)"
    and "fetchManifestAndSignature b loc dir w1 = (Inr (manifestBytes, signatureBytes), w2)"
  shows "(verifySigned e (bmv_keyring b) manifestBytes signatureBytes = Some err \<longrightarrow>
            BuildManifestVerifier_VerifyHoistArtifact e b loc w = (Some err, os_RemoveAll dir w2) \<and>
            (\<exists>c. err = SignatureNotVerified c \<or> err = ArmoredBodyUnreadable c) \<and>
            localCopy (os_RemoveAll dir w2) = localCopy w \<and>
            CallReadAll \<notin> set (calls_since w (os_RemoveAll dir w2))) \<and>
         (fst (BuildManifestVerifier_VerifyHoistArtifact e b loc w) = None) =
           (verifySigned e (bmv_keyring b) manifestBytes signatureBytes = None \<and>
            fst (checkMatchingDigest e manifestBytes w2) = None)"
proof -
  have w1: "w1 = w\<lparr>tempdirs := Suc (tempdirs w), trace := trace w @ [CallTempDir]\<rparr>"
    using assms(2) by (auto simp: os_TempDir_def)
  have run: "BuildManifestVerifier_VerifyHoistArtifact e b loc w =
      (case verifySigned e (bmv_keyring b) manifestBytes signatureBytes of
         Some err \<Rightarrow> (Some err, os_RemoveAll dir w2)
       | None \<Rightarrow>
           (fst (checkMatchingDigest e manifestBytes w2),
            os_RemoveAll dir (snd (checkMatchingDigest e manifestBytes w2))))"
    using assms
    by (simp add: BuildManifestVerifier_VerifyHoistArtifact_def verifyManifestIn_def
        split: option.splits prod.splits)
  have kinds: "\<exists>c. err = SignatureNotVerified c \<or> err = ArmoredBodyUnreadable c"
    if "verifySigned e (bmv_keyring b) manifestBytes signatureBytes = Some err"
    using that by (auto simp: verifySigned_def split: sum.splits option.splits)
  have same: "localCopy (os_RemoveAll dir w2) = localCopy w"
    using fetch_effect(1) [OF assms(3)] by (simp add: w1 os_RemoveAll_def)
  have "trace (os_RemoveAll dir w2) = trace w @
      [CallTempDir,
       CallCopyLocal (loc\<lparr>Path := Path loc @ ''.manifest''\<rparr>) (filepath_Join dir ''manifest''),
       CallCopyLocal (loc\<lparr>Path := Path loc @ ''.manifest.sig''\<rparr>)
         (filepath_Join dir ''signature''),
       CallRemoveAll dir]"
    using fetch_ok_trace [OF assms(3)] by (simp add: w1 os_RemoveAll_def)
  from calls_since_append [OF this]
  have unread: "CallReadAll \<notin> set (calls_since w (os_RemoveAll dir w2))"
    by simp
  show ?thesis
    using kinds same unread by (auto simp: run split: option.splits)
qed

text \<open>
  The manifest declares the right digest and is signed by key 9, which the keyring does
  not hold: the verifier fails on the signature, with the local copy still at offset 0.
  Signed by key 7, the same manifest passes both checks.
\<close>

theorem manifest_signature_first_witness:
  "Scheme demo_location \<in> set recognizedSchemes \<and>
   fst (checkMatchingDigest demo_env demo_manifest (demo_world demo_file)) = None \<and>
   fst (BuildManifestVerifier_VerifyHoistArtifact demo_env
          (manVerifier (demo_composite demo_remote_untrusted)) demo_location
          (demo_world demo_file)) =
     Some (SignatureNotVerified ''openpgp: invalid signature'') \<and>
   localCopy (snd (BuildManifestVerifier_VerifyHoistArtifact demo_env
          (manVerifier (demo_composite demo_remote_untrusted)) demo_location
          (demo_world demo_file))) = demo_file \<and>
   fst (BuildManifestVerifier_VerifyHoistArtifact demo_env
          (manVerifier (demo_composite demo_remote)) demo_location
          (demo_world demo_file)) = None"
proof -
  let ?w = "demo_world demo_file"
  let ?w1 = "snd (os_TempDir demo_env ?w)"
  let ?bad = "manVerifier (demo_composite demo_remote_untrusted)"
  let ?good = "manVerifier (demo_composite demo_remote)"
  have scheme: "Scheme demo_location \<in> set recognizedSchemes"
    by (simp add: demo_location_def recognizedSchemes_def)
  have tmp: "os_TempDir demo_env ?w = (Inr ''/tmp/av'', ?w1)"
    by (simp add: prod_eq_iff os_TempDir_def demo_env_def demo_world_def)
  have bad: "fetchManifestAndSignature ?bad demo_location ''/tmp/av'' ?w1 =
      (Inr (demo_manifest, [9, 64]),
       snd (fetchManifestAndSignature ?bad demo_location ''/tmp/av'' ?w1))"
    by (simp add: prod_eq_iff fetchManifestAndSignature_def Let_def world_defs demo_env_def
        demo_world_def demo_composite_def demo_remote_untrusted_def demo_fetcher_def
        demo_location_def)
  have good: "fetchManifestAndSignature ?good demo_location ''/tmp/av'' ?w1 =
      (Inr (demo_manifest, [7, 64]),
       snd (fetchManifestAndSignature ?good demo_location ''/tmp/av'' ?w1))"
    by (simp add: prod_eq_iff fetchManifestAndSignature_def Let_def world_defs demo_env_def
        demo_world_def demo_composite_def demo_remote_def demo_fetcher_def
        demo_location_def)
  have rejected: "verifySigned demo_env (bmv_keyring ?bad) demo_manifest [9, 64] =
      Some (SignatureNotVerified ''openpgp: invalid signature'')"
    by (simp add: verifySigned_def demo_defs)
  have accepted: "verifySigned demo_env (bmv_keyring ?good) demo_manifest [7, 64] = None"
    by (simp add: verifySigned_def demo_defs)
  have digest: "fst (checkMatchingDigest demo_env demo_manifest w') = None"
    if "localCopy w' = demo_file" for w'
    using that by (simp add: checkMatchingDigest_def ioutil_ReadAll_def Let_def demo_defs)
  have kept: "localCopy (snd (fetchManifestAndSignature ?good demo_location ''/tmp/av'' ?w1)) =
      demo_file"
    using fetch_effect(1) [OF good] by (simp add: os_TempDir_def demo_world_def)
  have start: "localCopy ?w = demo_file"
    by (simp add: demo_world_def)
  show ?thesis
    using scheme
      manifest_signature_first [OF scheme tmp bad,
        of "SignatureNotVerified ''openpgp: invalid signature''"]
      manifest_signature_first [OF scheme tmp good] rejected accepted
      digest [OF kept] digest [OF start] start
    by simp
qed

subsection \<open>Where the companions are fetched from\<close>

lemma Composite_trace:
  "\<exists>tr. trace (snd (CompositeVerifier_VerifyHoistArtifact e b loc w)) = trace w @ tr \<and>
        set (fetched tr) \<subseteq> {loc\<lparr>Path := Path loc @ ''.manifest''\<rparr>,
                              loc\<lparr>Path := Path loc @ ''.manifest.sig''\<rparr>,
                              loc\<lparr>Path := Path loc @ ''.sig''\<rparr>}"
proof (cases "BuildManifestVerifier_VerifyHoistArtifact e (manVerifier b) loc w")
  case (Pair r w1)
  from BMV_trace [of e "manVerifier b" loc w] Pair obtain tr1
    where tr1: "trace w1 = trace w @ tr1"
      and f1: "set (fetched tr1) \<subseteq> {loc\<lparr>Path := Path loc @ ''.manifest''\<rparr>,
                                    loc\<lparr>Path := Path loc @ ''.manifest.sig''\<rparr>}"
    by auto
  show ?thesis
  proof (cases r)
    case None
    with Pair have "CompositeVerifier_VerifyHoistArtifact e b loc w = (None, w1)"
      by (simp add: Composite_after_success)
    with tr1 f1 show ?thesis by auto
  next
    case (Some manErr)
    with Pair have ko:
      "BuildManifestVerifier_VerifyHoistArtifact e (manVerifier b) loc w = (Some manErr, w1)"
      by simp
    from Composite_failure_trace [OF ko] obtain tr
      where tr: "trace (snd (CompositeVerifier_VerifyHoistArtifact e b loc w)) =
               trace w1 @ CallSeek # tr"
        and f: "set (fetched tr) \<subseteq> {loc\<lparr>Path := Path loc @ ''.sig''\<rparr>}"
      by blast
    have "trace (snd (CompositeVerifier_VerifyHoistArtifact e b loc w)) =
               trace w @ (tr1 @ CallSeek # tr)"
      using tr tr1 by simp
    moreover have "set (fetched (tr1 @ CallSeek # tr)) \<subseteq>
        {loc\<lparr>Path := Path loc @ ''.manifest''\<rparr>, loc\<lparr>Path := Path loc @ ''.manifest.sig''\<rparr>,
         loc\<lparr>Path := Path loc @ ''.sig''\<rparr>}"
      using f1 f by (auto simp: fetched_append fetched_simps)
    ultimately show ?thesis by blast
  qed
qed

text \<open>
  Claim C6. For a location with a recognized scheme, once the temporary directory exists,
  the manifest strategy asks the fetcher for the location with \<^verbatim>\<open>.manifest\<close> appended to
  its path and, if that arrived, for the location with \<^verbatim>\<open>.manifest.sig\<close> appended; the
  build strategy asks for the location with \<^verbatim>\<open>.sig\<close> appended. Every URL the composite
  requests during a call is the location with one of the three suffixes appended to its
  path: scheme, host, query, fragment and every other field are those of the location.
\<close>

theorem companion_urls:
  assumes "Scheme loc \<in> set recognizedSchemes"
    and "ioutil_TempDir e (tempdirs w) = Inr dir"
  shows "fetched (calls_since w (snd (BuildManifestVerifier_VerifyHoistArtifact e bm loc w))) =
           loc\<lparr>Path := Path loc @ ''.manifest''\<rparr> #
           (case fst (bmv_fetcher bm (loc\<lparr>Path := Path loc @ ''.manifest''\<rparr>)
                        (filepath_Join dir ''manifest'') (disk w)) of
              None \<Rightarrow> [loc\<lparr>Path := Path loc @ ''.manifest.sig''\<rparr>]
            | Some c \<Rightarrow> []) \<and>
         fetched (calls_since w (snd (BuildVerifier_VerifyHoistArtifact e bb loc w))) =
           [loc\<lparr>Path := Path loc @ ''.sig''\<rparr>] \<and>
         (\<forall>u \<in> set (fetched (calls_since w
                    (snd (CompositeVerifier_VerifyHoistArtifact e b loc w)))).
            Path u \<in> {Path loc @ ''.manifest'', Path loc @ ''.manifest.sig'',
                       Path loc @ ''.sig''} \<and>
            Scheme u = Scheme loc \<and> Host u = Host loc \<and> RawQuery u = RawQuery loc \<and>
            Fragment u = Fragment loc \<and> u\<lparr>Path := Path loc\<rparr> = loc)"
proof -
  let ?w1 = "w\<lparr>tempdirs := Suc (tempdirs w), trace := trace w @ [CallTempDir]\<rparr>"
  have man: "fetched (calls_since w (snd (BuildManifestVerifier_VerifyHoistArtifact e bm loc w))) =
           loc\<lparr>Path := Path loc @ ''.manifest''\<rparr> #
           (case fst (bmv_fetcher bm (loc\<lparr>Path := Path loc @ ''.manifest''\<rparr>)
                        (filepath_Join dir ''manifest'') (disk w)) of
              None \<Rightarrow> [loc\<lparr>Path := Path loc @ ''.manifest.sig''\<rparr>]
            | Some c \<Rightarrow> [])"
  proof -
    obtain r w2 where v: "verifyManifestIn e bm loc dir ?w1 = (r, w2)"
      by (cases "verifyManifestIn e bm loc dir ?w1") blast
    from verifyManifestIn_trace [OF v] obtain rest
      where rest: "set rest \<subseteq> {CallReadAll}"
        and tr: "trace w2 = trace w @ (CallTempDir #
           CallCopyLocal (loc\<lparr>Path := Path loc @ ''.manifest''\<rparr>)
             (filepath_Join dir ''manifest'') #
           (case fst (bmv_fetcher bm (loc\<lparr>Path := Path loc @ ''.manifest''\<rparr>)
                        (filepath_Join dir ''manifest'') (disk w)) of
              None \<Rightarrow> [CallCopyLocal (loc\<lparr>Path := Path loc @ ''.manifest.sig''\<rparr>)
                         (filepath_Join dir ''signature'')]
            | Some c \<Rightarrow> []) @ rest)"
      by auto
    have silent: "fetched rest = []"
      using rest by (induction rest) (auto simp: fetched_simps)
    have "BuildManifestVerifier_VerifyHoistArtifact e bm loc w = (r, os_RemoveAll dir w2)"
      using assms v by (simp add: BuildManifestVerifier_VerifyHoistArtifact_def os_TempDir_def)
    then show ?thesis
      using tr silent
      by (simp add: calls_since_def os_RemoveAll_def fetched_append fetched_simps
          split: option.splits)
  qed
  have build: "fetched (calls_since w (snd (BuildVerifier_VerifyHoistArtifact e bb loc w))) =
           [loc\<lparr>Path := Path loc @ ''.sig''\<rparr>]"
  proof -
    obtain r w2 where v: "verifyBuildIn e bb loc dir ?w1 = (r, w2)"
      by (cases "verifyBuildIn e bb loc dir ?w1") blast
    from verifyBuildIn_trace [OF v] obtain rest
      where rest: "set rest \<subseteq> {CallReadAll}"
        and tr: "trace w2 = trace w @ (CallTempDir #
           CallCopyLocal (loc\<lparr>Path := Path loc @ ''.sig''\<rparr>) (filepath_Join dir ''sig'') # rest)"
      by auto
    have silent: "fetched rest = []"
      using rest by (induction rest) (auto simp: fetched_simps)
    have "BuildVerifier_VerifyHoistArtifact e bb loc w = (r, os_RemoveAll dir w2)"
      using assms v by (simp add: BuildVerifier_VerifyHoistArtifact_def os_TempDir_def)
    then show ?thesis
      using tr silent
      by (simp add: calls_since_def os_RemoveAll_def fetched_append fetched_simps)
  qed
  from Composite_trace [of e b loc w] obtain tr
    where "trace (snd (CompositeVerifier_VerifyHoistArtifact e b loc w)) = trace w @ tr"
      and "set (fetched tr) \<subseteq> {loc\<lparr>Path := Path loc @ ''.manifest''\<rparr>,
                                  loc\<lparr>Path := Path loc @ ''.manifest.sig''\<rparr>,
                                  loc\<lparr>Path := Path loc @ ''.sig''\<rparr>}"
    by blast
  then have "set (fetched (calls_since w
                    (snd (CompositeVerifier_VerifyHoistArtifact e b loc w)))) \<subseteq>
      {loc\<lparr>Path := Path loc @ ''.manifest''\<rparr>, loc\<lparr>Path := Path loc @ ''.manifest.sig''\<rparr>,
       loc\<lparr>Path := Path loc @ ''.sig''\<rparr>}"
    by (simp add: calls_since_def)
  then have "\<forall>u \<in> set (fetched (calls_since w
                    (snd (CompositeVerifier_VerifyHoistArtifact e b loc w)))).
            Path u \<in> {Path loc @ ''.manifest'', Path loc @ ''.manifest.sig'',
                       Path loc @ ''.sig''} \<and>
            Scheme u = Scheme loc \<and> Host u = Host loc \<and> RawQuery u = RawQuery loc \<and>
            Fragment u = Fragment loc \<and> u\<lparr>Path := Path loc\<rparr> = loc"
    by auto
  with man build show ?thesis by blast
qed

text \<open>
  The location \<^verbatim>\<open>https://foo.bar.baz/a.tgz?v=1#top\<close>: the manifest strategy asks for the
  manifest and its signature, the build strategy for the direct signature, and the
  composite, when the manifest is the one of another build, for all three, each with the
  query and the fragment of the location.
\<close>

theorem companion_urls_witness:
  "Scheme demo_location \<in> set recognizedSchemes \<and>
   ioutil_TempDir demo_env (tempdirs (demo_world demo_file)) = Inr ''/tmp/av'' \<and>
   fetched (trace (snd (BuildManifestVerifier_VerifyHoistArtifact demo_env
       (manVerifier (demo_composite demo_remote)) demo_location (demo_world demo_file)))) =
     [demo_location\<lparr>Path := ''/a.tgz.manifest''\<rparr>,
      demo_location\<lparr>Path := ''/a.tgz.manifest.sig''\<rparr>] \<and>
   fetched (trace (snd (BuildVerifier_VerifyHoistArtifact demo_env
       (buildVerifier (demo_composite demo_remote)) demo_location (demo_world demo_file)))) =
     [demo_location\<lparr>Path := ''/a.tgz.sig''\<rparr>] \<and>
   fetched (trace (snd (CompositeVerifier_VerifyHoistArtifact demo_env
       (demo_composite demo_remote_stale) demo_location (demo_world demo_file)))) =
     [demo_location\<lparr>Path := ''/a.tgz.manifest''\<rparr>,
      demo_location\<lparr>Path := ''/a.tgz.manifest.sig''\<rparr>,
      demo_location\<lparr>Path := ''/a.tgz.sig''\<rparr>] \<and>
   RawQuery (demo_location\<lparr>Path := ''/a.tgz.sig''\<rparr>) = ''v=1'' \<and>
   Fragment (demo_location\<lparr>Path := ''/a.tgz.sig''\<rparr>) = ''top''"
proof -
  have scheme: "Scheme demo_location \<in> set recognizedSchemes"
    by (simp add: demo_location_def recognizedSchemes_def)
  have tmp: "ioutil_TempDir demo_env (tempdirs (demo_world demo_file)) = Inr ''/tmp/av''"
    by (simp add: demo_env_def demo_world_def)
  have served: "fst (bmv_fetcher (manVerifier (demo_composite demo_remote))
      (demo_location\<lparr>Path := ''/a.tgz.manifest''\<rparr>)
      (filepath_Join ''/tmp/av'' ''manifest'') (disk (demo_world demo_file))) = None"
    by (simp add: demo_composite_def demo_fetcher_def demo_remote_def demo_location_def)
  have since: "calls_since (demo_world demo_file) w' = trace w'" for w'
    by (simp add: calls_since_def demo_world_def)
  have path: "Path demo_location = ''/a.tgz''"
    by (simp add: demo_location_def)
  have all: "fetched (trace (snd (CompositeVerifier_VerifyHoistArtifact demo_env
       (demo_composite demo_remote_stale) demo_location (demo_world demo_file)))) =
     [demo_location\<lparr>Path := ''/a.tgz.manifest''\<rparr>,
      demo_location\<lparr>Path := ''/a.tgz.manifest.sig''\<rparr>,
      demo_location\<lparr>Path := ''/a.tgz.sig''\<rparr>]"
    by (simp add: demo_defs world_defs verifier_defs fetched_simps)
  have fields: "RawQuery (demo_location\<lparr>Path := ''/a.tgz.sig''\<rparr>) = ''v=1''"
    "Fragment (demo_location\<lparr>Path := ''/a.tgz.sig''\<rparr>) = ''top''"
    by (simp_all add: demo_location_def)
  from companion_urls [OF scheme tmp, of "manVerifier (demo_composite demo_remote)"
      "buildVerifier (demo_composite demo_remote)"]
  have "fetched (trace (snd (BuildManifestVerifier_VerifyHoistArtifact demo_env
       (manVerifier (demo_composite demo_remote)) demo_location (demo_world demo_file)))) =
     [demo_location\<lparr>Path := ''/a.tgz.manifest''\<rparr>,
      demo_location\<lparr>Path := ''/a.tgz.manifest.sig''\<rparr>]"
    and "fetched (trace (snd (BuildVerifier_VerifyHoistArtifact demo_env
       (buildVerifier (demo_composite demo_remote)) demo_location (demo_world demo_file)))) =
     [demo_location\<lparr>Path := ''/a.tgz.sig''\<rparr>]"
    by (simp_all add: served since path)
  with scheme tmp all fields show ?thesis by simp
qed

subsection \<open>Loading the keyring\<close>

lemma verifySigned_not_keyring: "verifySigned e k p s \<noteq> Some (KeyringLoadFailed q c)"
  by (auto simp: verifySigned_def split: sum.splits option.splits)

lemma checkMatchingDigest_not_keyring:
  "fst (checkMatchingDigest e mb w) \<noteq> Some (KeyringLoadFailed q c)"
  by (auto simp: checkMatchingDigest_def Let_def split: prod.splits sum.splits)

lemma fetch_not_keyring:
  "fst (fetchManifestAndSignature b loc dir w) \<noteq> Inl (KeyringLoadFailed q c)"
  by (auto simp: fetchManifestAndSignature_def Let_def
      split: prod.splits sum.splits option.splits)

lemma verifyManifestIn_not_keyring:
  "fst (verifyManifestIn e b loc dir w) \<noteq> Some (KeyringLoadFailed q c)"
proof (cases "fetchManifestAndSignature b loc dir w")
  case (Pair fr w1)
  show ?thesis
    using Pair fetch_not_keyring [of b loc dir w q c]
      verifySigned_not_keyring [of e "bmv_keyring b" _ _ q c]
      checkMatchingDigest_not_keyring [of e _ w1 q c]
    by (auto simp: verifyManifestIn_def split: sum.splits option.splits)
qed

lemma verifyBuildIn_not_keyring:
  "fst (verifyBuildIn e b loc dir w) \<noteq> Some (KeyringLoadFailed q c)"
  using verifySigned_not_keyring [of e "bv_keyring b" _ _ q c]
  by (auto simp: verifyBuildIn_def Let_def split: prod.splits sum.splits option.splits)

lemma BMV_not_keyring:
  "fst (BuildManifestVerifier_VerifyHoistArtifact e b loc w) \<noteq> Some (KeyringLoadFailed q c)"
proof (cases rule: BMV_cases [of loc e b w])
  case scheme
  then show ?thesis by simp
next
  case (tempdir c')
  then show ?thesis by simp
next
  case (run dir r w2)
  then show ?thesis
    using verifyManifestIn_not_keyring [of e b loc dir _ q c] by (metis fst_conv)
qed

lemma BV_not_keyring:
  "fst (BuildVerifier_VerifyHoistArtifact e b loc w) \<noteq> Some (KeyringLoadFailed q c)"
proof (cases rule: BV_cases [of loc e b w])
  case scheme
  then show ?thesis by simp
next
  case (tempdir c')
  then show ?thesis by simp
next
  case (run dir r w2)
  then show ?thesis
    using verifyBuildIn_not_keyring [of e b loc dir _ q c] by (metis fst_conv)
qed

lemma Composite_not_keyring:
  "fst (CompositeVerifier_VerifyHoistArtifact e b loc w) \<noteq> Some (KeyringLoadFailed q c)"
proof (cases "BuildManifestVerifier_VerifyHoistArtifact e (manVerifier b) loc w")
  case (Pair r w1)
  show ?thesis
  proof (cases r)
    case None
    with Pair show ?thesis by (simp add: Composite_after_success)
  next
    case (Some manErr)
    with Pair have ko:
      "BuildManifestVerifier_VerifyHoistArtifact e (manVerifier b) loc w = (Some manErr, w1)"
      by simp
    show ?thesis
      using BV_not_keyring [of e "buildVerifier b" loc _ q c]
      by (simp add: Composite_after_failure [OF ko] split: option.splits)
  qed
qed

text \<open>
  Claim C8. When \<^verbatim>\<open>LoadKeyring\<close> fails on the configured path, each of the three
  constructors returns the keyring error and no verifier. The constructors fail in no
  other way: an error from one of them is the keyring error of a failed load. No call of
  \<^verbatim>\<open>VerifyHoistArtifact\<close>, on any verifier, any location and any world, returns a keyring
  error: the keyring is loaded by the constructors only.
\<close>

theorem keyring_load_failure:
  "(LoadKeyring e keyringPath = Inl c \<longrightarrow>
      NewBuildManifestVerifier e keyringPath f = Inl (KeyringLoadFailed keyringPath c) \<and>
      NewBuildVerifier e keyringPath f = Inl (KeyringLoadFailed keyringPath c) \<and>
      NewCompositeVerifier e keyringPath f = Inl (KeyringLoadFailed keyringPath c)) \<and>
   (NewBuildManifestVerifier e keyringPath f = Inl err \<or>
    NewBuildVerifier e keyringPath f = Inl err \<or>
    NewCompositeVerifier e keyringPath f = Inl err \<longrightarrow>
      (\<exists>c'. LoadKeyring e keyringPath = Inl c' \<and> err = KeyringLoadFailed keyringPath c')) \<and>
   fst (BuildManifestVerifier_VerifyHoistArtifact e bm loc w) \<noteq> Some (KeyringLoadFailed q d) \<and>
   fst (BuildVerifier_VerifyHoistArtifact e bb loc w) \<noteq> Some (KeyringLoadFailed q d) \<and>
   fst (CompositeVerifier_VerifyHoistArtifact e b loc w) \<noteq> Some (KeyringLoadFailed q d)"
proof -
  have fails: "LoadKeyring e keyringPath = Inl c \<longrightarrow>
      NewBuildManifestVerifier e keyringPath f = Inl (KeyringLoadFailed keyringPath c) \<and>
      NewBuildVerifier e keyringPath f = Inl (KeyringLoadFailed keyringPath c) \<and>
      NewCompositeVerifier e keyringPath f = Inl (KeyringLoadFailed keyringPath c)"
    by (simp add: NewBuildManifestVerifier_def NewBuildVerifier_def NewCompositeVerifier_def)
  have only: "NewBuildManifestVerifier e keyringPath f = Inl err \<or>
    NewBuildVerifier e keyringPath f = Inl err \<or>
    NewCompositeVerifier e keyringPath f = Inl err \<longrightarrow>
      (\<exists>c'. LoadKeyring e keyringPath = Inl c' \<and> err = KeyringLoadFailed keyringPath c')"
    by (auto simp: NewBuildManifestVerifier_def NewBuildVerifier_def NewCompositeVerifier_def
        split: sum.splits)
  show ?thesis
    by (intro conjI fails only BMV_not_keyring BV_not_keyring Composite_not_keyring)
qed

text \<open>A path with no keyring behind it.\<close>

theorem keyring_load_failure_witness:
  "LoadKeyring demo_env ''/nonexistent'' = Inl ''no such file or directory'' \<and>
   NewBuildManifestVerifier demo_env ''/nonexistent'' (demo_fetcher demo_remote) =
     Inl (KeyringLoadFailed ''/nonexistent'' ''no such file or directory'') \<and>
   NewBuildVerifier demo_env ''/nonexistent'' (demo_fetcher demo_remote) =
     Inl (KeyringLoadFailed ''/nonexistent'' ''no such file or directory'') \<and>
   NewCompositeVerifier demo_env ''/nonexistent'' (demo_fetcher demo_remote) =
     Inl (KeyringLoadFailed ''/nonexistent'' ''no such file or directory'')"
proof -
  have missing: "LoadKeyring demo_env ''/nonexistent'' = Inl ''no such file or directory''"
    by (simp add: demo_env_def)
  note failed =
    keyring_load_failure [where e = demo_env and keyringPath = "''/nonexistent''"
      and c = "''no such file or directory''" and f = "demo_fetcher demo_remote",
      THEN conjunct1, THEN mp, OF missing]
  from missing failed show ?thesis by simp
qed

end
